theory Spec2Isabelle
  imports Complex_Main "HOL-Library.Sublist"
begin

section \<open>Python values, strings and exceptions\<close>

text \<open>
  The repository is Python. A Python \<open>str\<close> is modelled as a \<open>string\<close> whose characters
  stand for the code points below 256; \<open>len\<close> is \<open>length\<close>. Dictionaries that travel
  through the pipeline (claims, evidence items, parsed JSON) hold values of any type, so
  they are modelled by a datatype of dynamically typed values; a \<open>dict\<close> is an association
  list in insertion order.
\<close>

datatype pyval =
    PNone
  | PBool bool
  | PInt int
  | PFloat rat
  | PStr string
  | PList "pyval list"
  | PDict "(pyval \<times> pyval) list"

type_synonym pydict = "(pyval \<times> pyval) list"

datatype exn =
    TypeError
  | AttributeError
  | KeyError
  | ValueError
  | JSONDecodeError
  | ExternalError string

text \<open>Sequencing of fallible steps: the first raised exception is the result.\<close>

fun bnd :: "exn + 'a \<Rightarrow> ('a \<Rightarrow> exn + 'b) \<Rightarrow> exn + 'b" where
  "bnd (Inl e) f = Inl e"
| "bnd (Inr x) f = f x"

subsection \<open>\<open>str\<close> methods\<close>

text \<open>\<open>str.isspace\<close> on the code points below 256.\<close>

definition py_isspace :: "char \<Rightarrow> bool" where
  "py_isspace c = ((of_char c :: nat) \<in> {9, 10, 11, 12, 13, 28, 29, 30, 31, 32, 133, 160})"

text \<open>\<open>s.strip()\<close>: leading and trailing whitespace removed.\<close>

definition py_strip :: "string \<Rightarrow> string" where
  "py_strip s = rev (dropWhile py_isspace (rev (dropWhile py_isspace s)))"

text \<open>\<open>c.lower()\<close> on the code points below 256: A-Z, and the capital letters of Latin-1.\<close>

definition lower_char :: "char \<Rightarrow> char" where
  "lower_char c =
     (let n = (of_char c :: nat) in
      if (65 \<le> n \<and> n \<le> 90) \<or> (192 \<le> n \<and> n \<le> 222 \<and> n \<noteq> 215)
      then char_of (n + 32) else c)"

definition py_lower :: "string \<Rightarrow> string" where
  "py_lower s = map lower_char s"

text \<open>\<open>sub in s\<close> for two strings: \<open>sub\<close> occurs in \<open>s\<close> as a contiguous substring.\<close>

fun py_contains :: "string \<Rightarrow> string \<Rightarrow> bool" where
  "py_contains sub [] = (sub = [])"
| "py_contains sub (c # cs) = (prefix sub (c # cs) \<or> py_contains sub cs)"

text \<open>\<open>any(k in s for k in keywords)\<close> and \<open>sum(1 for k in keywords if k in s)\<close>.\<close>

definition any_in :: "string list \<Rightarrow> string \<Rightarrow> bool" where
  "any_in keywords s = list_ex (\<lambda>k. py_contains k s) keywords"

definition count_in :: "string list \<Rightarrow> string \<Rightarrow> nat" where
  "count_in keywords s = length (filter (\<lambda>k. py_contains k s) keywords)"

subsection \<open>Operations on dynamically typed values\<close>

text \<open>Keys of a dict are compared as Python compares them: numbers (and booleans) by
  value, everything else structurally. Lists and dicts are unhashable.\<close>

fun num_val :: "pyval \<Rightarrow> rat option" where
  "num_val (PBool b) = Some (if b then 1 else 0)"
| "num_val (PInt i) = Some (of_int i)"
| "num_val (PFloat r) = Some r"
| "num_val _ = None"

definition key_eq :: "pyval \<Rightarrow> pyval \<Rightarrow> bool" where
  "key_eq a b = (case num_val a of Some x \<Rightarrow> num_val b = Some x | None \<Rightarrow> a = b)"

fun hashable :: "pyval \<Rightarrow> bool" where
  "hashable (PList xs) = False"
| "hashable (PDict d) = False"
| "hashable _ = True"

fun lookup :: "pydict \<Rightarrow> pyval \<Rightarrow> pyval option" where
  "lookup [] k = None"
| "lookup ((k', v') # d) k = (if key_eq k' k then Some v' else lookup d k)"

text \<open>\<open>d[k] = v\<close>: an existing key keeps its place (and its key object), a new key goes
  last.\<close>

fun dict_set :: "pydict \<Rightarrow> pyval \<Rightarrow> pyval \<Rightarrow> pydict" where
  "dict_set [] k v = [(k, v)]"
| "dict_set ((k', v') # d) k v =
     (if key_eq k' k then (k', v) # d else (k', v') # dict_set d k v)"

text \<open>A dict literal with string keys, \<open>{"a": x, "b": y}\<close>.\<close>

definition mk_dict :: "(string \<times> pyval) list \<Rightarrow> pydict" where
  "mk_dict kvs = map (\<lambda>(k, v). (PStr k, v)) kvs"

text \<open>\<open>d[k]\<close> with a string key: a missing key raises KeyError, a value that is no dict raises
  TypeError (a list or a string indexed by a string, a number or None subscripted).\<close>

fun py_getitem :: "pyval \<Rightarrow> string \<Rightarrow> exn + pyval" where
  "py_getitem (PDict d) k = (case lookup d (PStr k) of None \<Rightarrow> Inl KeyError | Some v \<Rightarrow> Inr v)"
| "py_getitem _ k = Inl TypeError"

text \<open>\<open>d.get(k, default)\<close>: only a dict has the method.\<close>

fun py_get :: "pyval \<Rightarrow> string \<Rightarrow> pyval \<Rightarrow> exn + pyval" where
  "py_get (PDict d) k dflt = (case lookup d (PStr k) of None \<Rightarrow> Inr dflt | Some v \<Rightarrow> Inr v)"
| "py_get _ k dflt = Inl AttributeError"

text \<open>\<open>d.update({"a": x, ...})\<close> with a dict: its items are assigned in order.\<close>

definition dict_update :: "pydict \<Rightarrow> pydict \<Rightarrow> pydict" where
  "dict_update d other = foldl (\<lambda>acc (k, v). dict_set acc k v) d other"

text \<open>
  \<open>d.update(other)\<close> for a value of any type. A dict is merged. Any other iterable is read
  as a sequence of key/value pairs: each element must itself be an iterable of exactly two
  items (a two-element list, a two-character string, a dict with two keys) and its first
  item must be hashable. The pairs before a bad element stay assigned, so the function
  returns the dict reached and the exception, if any. None, booleans and numbers are not
  iterable.
\<close>

fun pair_of :: "pyval \<Rightarrow> exn + (pyval \<times> pyval)" where
  "pair_of (PList [k, v]) = (if hashable k then Inr (k, v) else Inl TypeError)"
| "pair_of (PList xs) = Inl ValueError"
| "pair_of (PStr [a, b]) = Inr (PStr [a], PStr [b])"
| "pair_of (PStr s) = Inl ValueError"
| "pair_of (PDict [(k1, v1), (k2, v2)]) = Inr (k1, k2)"
| "pair_of (PDict d) = Inl ValueError"
| "pair_of _ = Inl TypeError"

fun update_from_seq :: "pydict \<Rightarrow> pyval list \<Rightarrow> pydict \<times> exn option" where
  "update_from_seq d [] = (d, None)"
| "update_from_seq d (e # es) =
     (case pair_of e of
        Inl err \<Rightarrow> (d, Some err)
      | Inr (k, v) \<Rightarrow> update_from_seq (dict_set d k v) es)"

fun py_update :: "pydict \<Rightarrow> pyval \<Rightarrow> pydict \<times> exn option" where
  "py_update d (PDict other) = (dict_update d other, None)"
| "py_update d (PList xs) = update_from_seq d xs"
| "py_update d (PStr s) = update_from_seq d (map (\<lambda>c. PStr [c]) s)"
| "py_update d _ = (d, Some TypeError)"

text \<open>\<open>len(x)\<close>: strings, lists and dicts have a length.\<close>

fun py_len :: "pyval \<Rightarrow> exn + nat" where
  "py_len (PStr s) = Inr (length s)"
| "py_len (PList xs) = Inr (length xs)"
| "py_len (PDict d) = Inr (length d)"
| "py_len _ = Inl TypeError"

text \<open>\<open>x.lower()\<close>: only a string has the method.\<close>

fun py_lower_val :: "pyval \<Rightarrow> exn + string" where
  "py_lower_val (PStr s) = Inr (py_lower s)"
| "py_lower_val _ = Inl AttributeError"

text \<open>Truthiness, as \<open>if x:\<close> and \<open>not x\<close> read it.\<close>

fun py_truthy :: "pyval \<Rightarrow> bool" where
  "py_truthy PNone = False"
| "py_truthy (PBool b) = b"
| "py_truthy (PInt i) = (i \<noteq> 0)"
| "py_truthy (PFloat r) = (r \<noteq> 0)"
| "py_truthy (PStr s) = (s \<noteq> [])"
| "py_truthy (PList xs) = (xs \<noteq> [])"
| "py_truthy (PDict d) = (d \<noteq> [])"

text \<open>\<open>not x\<close>.\<close>

fun py_not :: "pyval \<Rightarrow> bool" where
  "py_not v = (\<not> py_truthy v)"

text \<open>\<open>x[:n]\<close> inside the progress messages: strings and lists can be sliced, a dict raises
  (a slice is no key of it), None and numbers are not subscriptable.\<close>

fun py_slice_ok :: "pyval \<Rightarrow> exn + unit" where
  "py_slice_ok (PStr s) = Inr ()"
| "py_slice_ok (PList xs) = Inr ()"
| "py_slice_ok _ = Inl TypeError"

section \<open>Regular expressions\<close>

text \<open>
  The patterns of the repository use literals, character classes, greedy and lazy
  repetition of a single character class, optional parts, alternatives and at most one
  capturing group. The matcher below is Python's backtracking matcher for this fragment:
  it lists the ways a pattern can match a prefix of the input, in the order in which the
  backtracking search tries them; the first one is the match \<open>re\<close> reports. A state is
  the rest of the input and the text captured by group 1, if any.
\<close>

datatype cls =
    AnyChar
  | Dot
  | Digit
  | Space
  | Word
  | Lits string
  | Either cls cls
  | Neg cls

datatype rx =
    Lit string
  | Cls cls
  | Star cls
  | LazyStar cls
  | Plus cls
  | Rep nat cls
  | Opt rx
  | Alt "rx list"
  | Seq "rx list"
  | Grp rx

definition is_digit :: "char \<Rightarrow> bool" where
  "is_digit c = (let n = (of_char c :: nat) in 48 \<le> n \<and> n \<le> 57)"

text \<open>\<open>\w\<close> on the code points below 256: letters, digits, numeric characters, underscore.\<close>

definition is_word :: "char \<Rightarrow> bool" where
  "is_word c =
     (let n = (of_char c :: nat) in
      (48 \<le> n \<and> n \<le> 57) \<or> (65 \<le> n \<and> n \<le> 90) \<or> n = 95 \<or> (97 \<le> n \<and> n \<le> 122) \<or>
      n = 170 \<or> n = 178 \<or> n = 179 \<or> n = 181 \<or> n = 185 \<or> n = 186 \<or>
      (188 \<le> n \<and> n \<le> 190) \<or> (192 \<le> n \<and> n \<le> 214) \<or> (216 \<le> n \<and> n \<le> 246) \<or>
      (248 \<le> n \<and> n \<le> 255))"

text \<open>The flag is \<open>re.IGNORECASE\<close>. \<open>AnyChar\<close> is the dot under \<open>re.DOTALL\<close>.\<close>

fun cls_ok :: "bool \<Rightarrow> cls \<Rightarrow> char \<Rightarrow> bool" where
  "cls_ok ic AnyChar c = True"
| "cls_ok ic Dot c = (c \<noteq> CHR 0x0A)"
| "cls_ok ic Digit c = is_digit c"
| "cls_ok ic Space c = py_isspace c"
| "cls_ok ic Word c = is_word c"
| "cls_ok ic (Lits s) c =
     (if ic then lower_char c \<in> set (map lower_char s) else c \<in> set s)"
| "cls_ok ic (Either a b) c = (cls_ok ic a c \<or> cls_ok ic b c)"
| "cls_ok ic (Neg a) c = (\<not> cls_ok ic a c)"

text \<open>A literal at the head of the input; under \<open>re.IGNORECASE\<close> characters are compared
  by their lower-case forms.\<close>

fun lit_prefix :: "bool \<Rightarrow> string \<Rightarrow> string \<Rightarrow> bool" where
  "lit_prefix ic [] s = True"
| "lit_prefix ic (a # l) [] = False"
| "lit_prefix ic (a # l) (c # s) =
     (if (if ic then lower_char a = lower_char c else a = c) then lit_prefix ic l s else False)"

text \<open>The rests after a run of characters of a class: shortest run first (lazy), and
  longest run first (greedy); with at least one character; with exactly \<open>n\<close>.\<close>

fun lazy_rests :: "(char \<Rightarrow> bool) \<Rightarrow> string \<Rightarrow> string list" where
  "lazy_rests ok [] = [[]]"
| "lazy_rests ok (c # cs) = (c # cs) # (if ok c then lazy_rests ok cs else [])"

definition greedy_rests :: "(char \<Rightarrow> bool) \<Rightarrow> string \<Rightarrow> string list" where
  "greedy_rests ok s = rev (lazy_rests ok s)"

fun plus_rests :: "(char \<Rightarrow> bool) \<Rightarrow> string \<Rightarrow> string list" where
  "plus_rests ok [] = []"
| "plus_rests ok (c # cs) = (if ok c then greedy_rests ok cs else [])"

fun rep_rests :: "(char \<Rightarrow> bool) \<Rightarrow> nat \<Rightarrow> string \<Rightarrow> string list" where
  "rep_rests ok 0 s = [s]"
| "rep_rests ok (Suc n) [] = []"
| "rep_rests ok (Suc n) (c # cs) = (if ok c then rep_rests ok n cs else [])"

type_synonym mstate = "string \<times> string option"

fun rx_match :: "bool \<Rightarrow> rx \<Rightarrow> mstate \<Rightarrow> mstate list"
  and rx_seq :: "bool \<Rightarrow> rx list \<Rightarrow> mstate \<Rightarrow> mstate list"
  and rx_alt :: "bool \<Rightarrow> rx list \<Rightarrow> mstate \<Rightarrow> mstate list" where
  "rx_match ic (Lit l) (s, g) = (if lit_prefix ic l s then [(drop (length l) s, g)] else [])"
| "rx_match ic (Cls k) (s, g) =
     (case s of [] \<Rightarrow> [] | c # cs \<Rightarrow> if cls_ok ic k c then [(cs, g)] else [])"
| "rx_match ic (Star k) (s, g) = map (\<lambda>r. (r, g)) (greedy_rests (cls_ok ic k) s)"
| "rx_match ic (LazyStar k) (s, g) = map (\<lambda>r. (r, g)) (lazy_rests (cls_ok ic k) s)"
| "rx_match ic (Plus k) (s, g) = map (\<lambda>r. (r, g)) (plus_rests (cls_ok ic k) s)"
| "rx_match ic (Rep n k) (s, g) = map (\<lambda>r. (r, g)) (rep_rests (cls_ok ic k) n s)"
| "rx_match ic (Opt r) (s, g) = rx_match ic r (s, g) @ [(s, g)]"
| "rx_match ic (Alt rs) (s, g) = rx_alt ic rs (s, g)"
| "rx_match ic (Seq rs) (s, g) = rx_seq ic rs (s, g)"
| "rx_match ic (Grp r) (s, g) =
     map (\<lambda>(s', g'). (s', Some (take (length s - length s') s))) (rx_match ic r (s, g))"
| "rx_seq ic [] st = [st]"
| "rx_seq ic (r # rs) st = concat (map (rx_seq ic rs) (rx_match ic r st))"
| "rx_alt ic [] st = []"
| "rx_alt ic (r # rs) st = rx_match ic r st @ rx_alt ic rs st"

text \<open>\<open>re.search\<close>: the leftmost position where the pattern matches. The result is
  \<open>None\<close> when there is no match, otherwise the text of group 1 (\<open>None\<close> inside when the
  pattern has no group).\<close>

fun re_search :: "bool \<Rightarrow> rx \<Rightarrow> string \<Rightarrow> string option option" where
  "re_search ic r [] = (case rx_match ic r ([], None) of [] \<Rightarrow> None | (rest, g) # _ \<Rightarrow> Some g)"
| "re_search ic r (c # cs) =
     (case rx_match ic r (c # cs, None) of
        [] \<Rightarrow> re_search ic r cs
      | (rest, g) # _ \<Rightarrow> Some g)"

text \<open>\<open>re.findall\<close> for a pattern with one group: the group's text at each match, the
  matches found from left to right without overlap. \<open>skip\<close> counts the characters still
  covered by the last match.\<close>

fun findall_from :: "bool \<Rightarrow> rx \<Rightarrow> nat \<Rightarrow> string \<Rightarrow> string list" where
  "findall_from ic r skip [] =
     (if skip = 0
      then (case rx_match ic r ([], None) of [] \<Rightarrow> [] | (rest, g) # _ \<Rightarrow> [case g of None \<Rightarrow> [] | Some t \<Rightarrow> t])
      else [])"
| "findall_from ic r skip (c # cs) =
     (if skip > 0 then findall_from ic r (skip - 1) cs
      else (case rx_match ic r (c # cs, None) of
              [] \<Rightarrow> findall_from ic r 0 cs
            | (rest, g) # _ \<Rightarrow>
                (case g of None \<Rightarrow> [] | Some t \<Rightarrow> t)
                # findall_from ic r (length (c # cs) - length rest - 1) cs))"

definition re_findall :: "bool \<Rightarrow> rx \<Rightarrow> string \<Rightarrow> string list" where
  "re_findall ic r s = findall_from ic r 0 s"



text \<open>\<open>re.sub\<close> of a pattern anchored with \<open>^\<close> by the empty text: a match at the very
  start is removed.\<close>

definition re_strip_prefix :: "bool \<Rightarrow> rx \<Rightarrow> string \<Rightarrow> string" where
  "re_strip_prefix ic r s = (case rx_match ic r (s, None) of [] \<Rightarrow> s | (rest, g) # _ \<Rightarrow> rest)"

text \<open>The maximal runs of characters that satisfy a predicate, from left to right.\<close>

fun runs :: "(char \<Rightarrow> bool) \<Rightarrow> string \<Rightarrow> string list" where
  "runs ok [] = []"
| "runs ok (c # cs) =
     (if ok c
      then (case cs of
              [] \<Rightarrow> [[c]]
            | d # ds \<Rightarrow>
                if ok d
                then (case runs ok cs of [] \<Rightarrow> [[c]] | w # ws \<Rightarrow> (c # w) # ws)
                else [c] # runs ok cs)
      else runs ok cs)"

text \<open>\<open>re.findall(r'\b\w+\b', s)\<close>: between two word boundaries \<open>\w+\<close> takes a whole run of
  word characters, so the result is the list of the maximal runs of word characters.\<close>

definition word_runs :: "string \<Rightarrow> string list" where
  "word_runs s = runs is_word s"




text \<open>\<open>s.split(sep)\<close> with a one-character separator: there is always at least one piece.\<close>

fun split_on :: "char \<Rightarrow> string \<Rightarrow> string list" where
  "split_on sep [] = [[]]"
| "split_on sep (c # cs) =
     (if c = sep then [] # split_on sep cs
      else (case split_on sep cs of [] \<Rightarrow> [[c]] | p # ps \<Rightarrow> (c # p) # ps))"

section \<open>The claim pipeline (\<open>pipeline.py\<close>)\<close>

text \<open>
  The pipeline talks to three collaborators that are not part of the repository: the chat
  model behind a prompt template (\<open>chain.invoke(...).content\<close>), the web search tool
  (\<open>search_tool.run\<close>) and the JSON codec. They are parameters of the model; each may
  raise. The number passed to the model and to the search tool is the count of earlier
  calls, so that two calls with the same input may answer differently. The calls issued
  are logged in the state that is threaded through.
\<close>

datatype template = ExtractTemplate | ClassifyTemplate | QueriesTemplate | EvaluateTemplate

record ext =
  chain_invoke :: "nat \<Rightarrow> template \<Rightarrow> pydict \<Rightarrow> exn + string"
  search_run :: "nat \<Rightarrow> string \<Rightarrow> exn + string"
  json_loads :: "string \<Rightarrow> exn + pyval"
  json_dumps :: "pyval \<Rightarrow> string"

record io =
  llm_calls :: "(template \<times> pydict) list"
  searches :: "string list"

definition invoke :: "ext \<Rightarrow> io \<Rightarrow> template \<Rightarrow> pydict \<Rightarrow> io \<times> (exn + string)" where
  "invoke x st t inputs =
     (st\<lparr>llm_calls := llm_calls st @ [(t, inputs)]\<rparr>,
      chain_invoke x (length (llm_calls st)) t inputs)"

subsection \<open>Classifier\<close>

definition valid_categories :: "string list" where
  "valid_categories =
     [''Financial'', ''Operational'', ''Legal & Compliance'',
      ''Environmental, Social, and Governance (ESG)'']"

text \<open>The category chosen for a model answer: \<open>response = content.strip()\<close>, then
  \<open>response if response in valid_categories else "Operational"\<close>.\<close>

definition choose_category :: "string \<Rightarrow> string" where
  "choose_category content =
     (let response = py_strip content
      in if response \<in> set valid_categories then response else ''Operational'')"

definition classify_claim_type_openrouter :: "ext \<Rightarrow> io \<Rightarrow> pydict \<Rightarrow> io \<times> (exn + pydict)" where
  "classify_claim_type_openrouter x st claim_data =
     (case py_getitem (PDict claim_data) ''claim_text'' of
        Inl e \<Rightarrow> (st, Inl e)
      | Inr claim_text \<Rightarrow>
          (case py_slice_ok claim_text of
             Inl e \<Rightarrow> (st, Inl e)
           | Inr _ \<Rightarrow>
               (case invoke x st ClassifyTemplate (mk_dict [(''claim_text'', claim_text)]) of
                  (st', Inl e) \<Rightarrow> (st', Inl e)
                | (st', Inr content) \<Rightarrow>
                    (st', Inr (dict_set claim_data (PStr ''category'') (PStr (choose_category content)))))))"

subsection \<open>Evidence retriever\<close>

text \<open>A chunk of the local evidence corpus (\<open>evidence_chunks\<close>, loaded once at start).\<close>

record chunk =
  page_content :: string
  metadata :: pydict

definition no_evidence_text :: string where
  "no_evidence_text = ''No reliable evidence was found.''"

definition no_result_marker :: string where
  "no_result_marker = ''No good DuckDuckGo Search Result''"

text \<open>The pattern \<open>^\d+\.\s*\<close> that removes a leading enumeration marker.\<close>

definition enum_marker :: rx where
  "enum_marker = Seq [Plus Digit, Lit ''.'', Star Space]"

text \<open>\<open>[re.sub(r'^\d+\.\s*', '', q).strip() for q in response.split('\n') if q.strip()]\<close>\<close>

definition parse_queries :: "string \<Rightarrow> string list" where
  "parse_queries response =
     map (\<lambda>q. py_strip (re_strip_prefix False enum_marker q))
       (filter (\<lambda>q. py_strip q \<noteq> []) (split_on (CHR 0x0A) response))"

text \<open>\<open>set(re.findall(r'\b\w+\b', query.lower()))\<close>, and the number of its terms that occur
  in a chunk.\<close>

definition key_terms :: "string \<Rightarrow> string list" where
  "key_terms query = remdups (word_runs (py_lower query))"

definition chunk_score :: "string \<Rightarrow> chunk \<Rightarrow> nat" where
  "chunk_score query c = count_in (key_terms query) (py_lower (page_content c))"

text \<open>An evidence item, paired with its relevance score (the sort key).\<close>

definition evidence_item :: "string \<Rightarrow> string \<Rightarrow> pyval \<Rightarrow> int \<Rightarrow> int \<times> pyval" where
  "evidence_item query content source score =
     (score, PDict (mk_dict
        [(''source_query'', PStr query),
         (''retrieved_content'', PStr content),
         (''source'', source),
         (''relevance_score'', PInt score)]))"

definition local_results :: "chunk list \<Rightarrow> string \<Rightarrow> (int \<times> pyval) list" where
  "local_results chunks query =
     map (\<lambda>c. evidence_item query (page_content c)
                (case lookup (metadata c) (PStr ''source_paper'') of
                   None \<Rightarrow> PStr ''Local Paper'' | Some v \<Rightarrow> v)
                (int (chunk_score query c)))
       (filter (\<lambda>c. chunk_score query c > 0) chunks)"

text \<open>The web fallback: one search per query; a search that raises is skipped, and so
  is a result that is empty or carries the no-result marker.\<close>

fun web_results :: "ext \<Rightarrow> io \<Rightarrow> string list \<Rightarrow> io \<times> (int \<times> pyval) list" where
  "web_results x st [] = (st, [])"
| "web_results x st (q # qs) =
     (let r = search_run x (length (searches st)) q;
          (st', rest) = web_results x (st\<lparr>searches := searches st @ [q]\<rparr>) qs
      in case r of
           Inl e \<Rightarrow> (st', rest)
         | Inr result_text \<Rightarrow>
             if result_text \<noteq> [] \<and> \<not> py_contains no_result_marker result_text
             then (st', evidence_item q result_text (PStr ''Web'') 0 # rest)
             else (st', rest))"

text \<open>\<open>sorted(all_results, key=lambda x: x['relevance_score'], reverse=True)[:3]\<close>: a stable
  sort, highest score first.\<close>

definition top_evidence :: "(int \<times> pyval) list \<Rightarrow> pyval list" where
  "top_evidence all_results = take 3 (map snd (sort_key (\<lambda>(score, item). - score) all_results))"

definition retrieve_evidence_openrouter ::
  "ext \<Rightarrow> chunk list \<Rightarrow> io \<Rightarrow> pydict \<Rightarrow> io \<times> (exn + pydict)" where
  "retrieve_evidence_openrouter x evidence_chunks st claim_data =
     (case py_getitem (PDict claim_data) ''claim_text'' of
        Inl e \<Rightarrow> (st, Inl e)
      | Inr claim_text \<Rightarrow>
          (case py_slice_ok claim_text of
             Inl e \<Rightarrow> (st, Inl e)
           | Inr _ \<Rightarrow>
               (case invoke x st QueriesTemplate (mk_dict [(''claim_text'', claim_text)]) of
                  (st1, Inl e) \<Rightarrow> (st1, Inl e)
                | (st1, Inr response) \<Rightarrow>
                    (let queries = parse_queries response;
                         found = concat (map (local_results evidence_chunks) queries);
                         (st2, all_results) =
                           (if found = [] then web_results x st1 queries else (st1, found))
                     in if all_results = []
                        then (st2, Inr (dict_set claim_data (PStr ''evidence'') (PStr no_evidence_text)))
                        else (st2, Inr (dict_set claim_data (PStr ''evidence'')
                                          (PList (top_evidence all_results))))))))"

subsection \<open>Evaluator\<close>

fun is_str :: "pyval \<Rightarrow> bool" where
  "is_str (PStr s) = True"
| "is_str _ = False"

definition insufficient_fields :: pydict where
  "insufficient_fields = mk_dict
     [(''verdict'', PStr ''Insufficient Evidence''),
      (''evidence_summary'', PStr ''No relevant evidence found.''),
      (''verdict_reasoning'', PStr ''The search did not yield enough evidence.'')]"

definition error_fields :: "string \<Rightarrow> pydict" where
  "error_fields response = mk_dict
     [(''verdict'', PStr ''Evaluation Error''),
      (''evidence_summary'', PStr ''Failed to parse model JSON.''),
      (''verdict_reasoning'', PStr response)]"

text \<open>The \<open>try\<close> block: \<open>json.loads\<close>, then \<open>claim_data.update(result_dict)\<close>; the bare
  \<open>except\<close> catches a failure of either and writes the error fields into the claim as it
  stands then.\<close>

definition absorb_response :: "ext \<Rightarrow> pydict \<Rightarrow> string \<Rightarrow> pydict" where
  "absorb_response x claim_data response =
     (case json_loads x response of
        Inl e \<Rightarrow> dict_update claim_data (error_fields response)
      | Inr result_dict \<Rightarrow>
          (case py_update claim_data result_dict of
             (d, None) \<Rightarrow> d
           | (d, Some e) \<Rightarrow> dict_update d (error_fields response)))"

definition evaluate_claim_openrouter :: "ext \<Rightarrow> io \<Rightarrow> pydict \<Rightarrow> io \<times> (exn + pydict)" where
  "evaluate_claim_openrouter x st claim_data =
     (case py_getitem (PDict claim_data) ''claim_text'' of
        Inl e \<Rightarrow> (st, Inl e)
      | Inr claim_text \<Rightarrow>
          (case py_getitem (PDict claim_data) ''evidence'' of
             Inl e \<Rightarrow> (st, Inl e)
           | Inr evidence \<Rightarrow>
               (case py_slice_ok claim_text of
                  Inl e \<Rightarrow> (st, Inl e)
                | Inr _ \<Rightarrow>
                    if py_not evidence \<or> is_str evidence
                    then (st, Inr (dict_update claim_data insufficient_fields))
                    else (case invoke x st EvaluateTemplate
                                 (mk_dict [(''claim_text'', claim_text),
                                           (''evidence_json'', PStr (json_dumps x evidence))]) of
                            (st', Inl e) \<Rightarrow> (st', Inl e)
                          | (st', Inr response) \<Rightarrow>
                              (st', Inr (absorb_response x claim_data response))))))"

text \<open>The verdict field of a claim, as \<open>claim_data.get('verdict')\<close> reads it.\<close>

definition verdict_of :: "pydict \<Rightarrow> pyval option" where
  "verdict_of claim_data = lookup claim_data (PStr ''verdict'')"

definition evaluator_verdicts :: "string list" where
  "evaluator_verdicts =
     [''Confirmed'', ''Plausible'', ''Contradicted'', ''Insufficient Evidence'',
      ''Evaluation Error'']"

subsection \<open>Scripted collaborators\<close>

text \<open>A fixed behaviour of the collaborators, for concrete runs: the model answers
  \<open>answer\<close> to every prompt, the JSON decoder reads that answer as \<open>parsed\<close> and rejects
  every other text, and every web search returns \<open>found\<close>.\<close>

definition scripted :: "string \<Rightarrow> exn + pyval \<Rightarrow> string \<Rightarrow> ext" where
  "scripted answer parsed found =
     \<lparr>chain_invoke = (\<lambda>n t inputs. Inr answer),
      search_run = (\<lambda>n q. Inr found),
      json_loads = (\<lambda>s. if s = answer then parsed else Inl JSONDecodeError),
      json_dumps = (\<lambda>v. [])\<rparr>"

definition io0 :: io where
  "io0 = \<lparr>llm_calls = [], searches = []\<rparr>"

section \<open>The pattern-based detector (\<open>robust_professional_main.py\<close>)\<close>

subsection \<open>Sentences\<close>

text \<open>\<open>re.split(pattern, s)\<close> for a pattern that matches one or more characters of a class
  (\<open>[.!?]+\<close>): the pieces between the maximal runs of such characters, the empty pieces
  at both ends included.\<close>

fun split_runs :: "(char \<Rightarrow> bool) \<Rightarrow> string \<Rightarrow> string list" where
  "split_runs sep [] = [[]]"
| "split_runs sep (c # cs) =
     (if sep c
      then (case cs of
              [] \<Rightarrow> [[], []]
            | d # ds \<Rightarrow> if sep d then split_runs sep cs else [] # split_runs sep cs)
      else (case split_runs sep cs of [] \<Rightarrow> [[c]] | p # ps \<Rightarrow> (c # p) # ps))"

definition sentence_end :: "char \<Rightarrow> bool" where
  "sentence_end c = (c = CHR ''.'' \<or> c = CHR ''!'' \<or> c = CHR ''?'')"

text \<open>\<open>sentences = re.split(r'[.!?]+', content)\<close>, then
  \<open>[s.strip() for s in sentences if len(s.strip()) > 30]\<close>.\<close>

definition sentences_of :: "string \<Rightarrow> string list" where
  "sentences_of content =
     map py_strip (filter (\<lambda>s. length (py_strip s) > 30) (split_runs sentence_end content))"

subsection \<open>The rule table\<close>

text \<open>The recurring parts of the patterns: \<open>.*?\<close>, an alternative of literals
  \<open>(?:a|b|c)\<close>, the percentage group \<open>(\d+(?:\.\d+)?%)\<close> and the amount
  \<open>\$?([\d,]+(?:\.\d+)?)\s*\<close>.\<close>

definition gap :: rx where
  "gap = LazyStar Dot"

definition one_of :: "string list \<Rightarrow> rx" where
  "one_of ws = Alt (map Lit ws)"

definition pct :: rx where
  "pct = Grp (Seq [Plus Digit, Opt (Seq [Lit ''.'', Plus Digit]), Lit ''%''])"

definition amount :: rx where
  "amount = Seq [Opt (Lit ''$''),
                 Grp (Seq [Plus (Either Digit (Lits '','')), Opt (Seq [Lit ''.'', Plus Digit])]),
                 Star Space]"

text \<open>A rule: pattern, category, claim type, confidence.\<close>

type_synonym rule = "rx \<times> string \<times> string \<times> string"

definition claim_patterns :: "rule list" where
  "claim_patterns =
    [(Seq [Lit ''revenue'', gap, one_of [''increas'', ''grow'', ''rise'', ''up'', ''jump'', ''boost''], gap, pct],
        ''Financial'', ''revenue_growth'', ''high''),
     (Seq [Lit ''profit'', gap, one_of [''increas'', ''grow'', ''rise'', ''up'', ''surge''], gap, pct],
        ''Financial'', ''profit_growth'', ''high''),
     (Seq [Lit ''sales'', gap, one_of [''reach'', ''achieve'', ''total'', ''hit'', ''exceed''], gap, amount,
           one_of [''million'', ''billion'', ''thousand'']],
        ''Financial'', ''sales_figure'', ''high''),
     (Seq [one_of [''earn'', ''generat''], gap, one_of [''revenue'', ''income''], gap, amount,
           one_of [''million'', ''billion'']],
        ''Financial'', ''revenue_amount'', ''high''),
     (Seq [Lit ''cost'', gap, one_of [''reduc'', ''sav'', ''cut'', ''lower''], gap, pct],
        ''Financial'', ''cost_reduction'', ''medium''),
     (Seq [Lit ''market'', gap, one_of [''cap'', ''value'', ''share''], gap,
           one_of [''increas'', ''grow'', ''reach''], gap, pct],
        ''Financial'', ''market_performance'', ''medium''),
     (Seq [one_of [''ebitda'', ''margin'', ''roi''], gap, one_of [''improv'', ''increas''], gap, pct],
        ''Financial'', ''financial_metrics'', ''high''),
     (Seq [Lit ''carbon'', gap, one_of [''reduc'', ''cut'', ''lower'', ''decreas'', ''mitigat''], gap, pct],
        ''ESG'', ''carbon_reduction'', ''high''),
     (Seq [Lit ''emission'', gap, one_of [''reduc'', ''decreas'', ''cut'', ''lower'', ''mitigat''], gap, pct],
        ''ESG'', ''emission_reduction'', ''high''),
     (Seq [Lit ''renewable'', gap, Lit ''energy'', gap,
           one_of [''increas'', ''adopt'', ''implement'', ''reach'', ''achieve''], gap, pct],
        ''ESG'', ''renewable_energy'', ''high''),
     (Seq [Lit ''sustainability'', gap,
           one_of [''initiative'', ''program'', ''goal'', ''target'', ''achievement'', ''commitment'']],
        ''ESG'', ''sustainability_program'', ''medium''),
     (Seq [Lit ''environmental'', gap, one_of [''impact'', ''footprint'', ''performance''], gap,
           one_of [''reduc'', ''improv'', ''enhanc'']],
        ''ESG'', ''environmental_impact'', ''medium''),
     (Seq [Lit ''waste'', gap, one_of [''reduc'', ''recycl'', ''divert'', ''eliminat''], gap, pct],
        ''ESG'', ''waste_reduction'', ''high''),
     (Seq [Lit ''water'', gap, one_of [''sav'', ''conserv'', ''reduc'', ''efficien''], gap, pct],
        ''ESG'', ''water_conservation'', ''medium''),
     (Seq [Lit ''biodiversity'', gap, one_of [''protect'', ''conserv'', ''restor'', ''enhanc'']],
        ''ESG'', ''biodiversity'', ''medium''),
     (Seq [Lit ''social'', gap, one_of [''impact'', ''responsibility'', ''program'', ''initiative'']],
        ''ESG'', ''social_impact'', ''medium''),
     (Seq [Lit ''efficiency'', gap, one_of [''improv'', ''increas'', ''enhanc'', ''optim''], gap, pct],
        ''Operational'', ''efficiency_improvement'', ''high''),
     (Seq [Lit ''productivity'', gap, one_of [''increas'', ''improv'', ''boost'', ''enhanc''], gap, pct],
        ''Operational'', ''productivity'', ''high''),
     (Seq [Lit ''automation'', gap,
           one_of [''system'', ''implement'', ''deploy'', ''install'', ''adopt'']],
        ''Operational'', ''automation'', ''medium''),
     (Seq [Lit ''customer'', gap, Lit ''satisfaction'', gap,
           one_of [''reach'', ''achieve'', ''increas'', ''improv''], gap, pct],
        ''Operational'', ''customer_satisfaction'', ''high''),
     (Seq [Lit ''quality'', gap, one_of [''improv'', ''increas'', ''enhanc'', ''optim''], gap, pct],
        ''Operational'', ''quality_improvement'', ''medium''),
     (Seq [Lit ''safety'', gap, one_of [''record'', ''increas'', ''improv'', ''enhanc''], gap, pct],
        ''Operational'', ''safety_performance'', ''high''),
     (Seq [Lit ''digital'', gap,
           one_of [''transformation'', ''innovation'', ''technology'', ''platform'']],
        ''Operational'', ''digital_transformation'', ''medium''),
     (Seq [Lit ''supply'', gap, Lit ''chain'', gap,
           one_of [''optim'', ''improv'', ''enhanc'', ''streamlin'']],
        ''Operational'', ''supply_chain'', ''medium''),
     (Seq [Lit ''compliance'', gap,
           one_of [''maintain'', ''achiev'', ''full'', ''complete'', ''100%'', ''perfect'']],
        ''Legal & Compliance'', ''compliance_status'', ''medium''),
     (Seq [Lit ''regulatory'', gap,
           one_of [''requirement'', ''standard'', ''framework'', ''guideline''], gap,
           one_of [''meet'', ''comply'', ''adher'', ''satisfy'']],
        ''Legal & Compliance'', ''regulatory_compliance'', ''medium''),
     (Seq [one_of [''gdpr'', ''sox'', ''iso'', ''hipaa'', ''pci'', ''regulation'', ''directive''], gap,
           one_of [''complian'', ''certif'', ''audit'', ''implement'']],
        ''Legal & Compliance'', ''specific_compliance'', ''high''),
     (Seq [Lit ''audit'', gap,
           one_of [''pass'', ''successful'', ''clean'', ''clear'', ''complet'', ''satisfactory'']],
        ''Legal & Compliance'', ''audit_result'', ''high''),
     (Seq [Lit ''certification'', gap,
           one_of [''achiev'', ''obtain'', ''maintain'', ''renew'', ''award'']],
        ''Legal & Compliance'', ''certification'', ''high''),
     (Seq [Lit ''governance'', gap, one_of [''framework'', ''structure'', ''process'', ''policy'']],
        ''Legal & Compliance'', ''governance'', ''medium''),
     (Seq [Lit ''risk'', gap, one_of [''management'', ''mitigation'', ''assessment'', ''control'']],
        ''Legal & Compliance'', ''risk_management'', ''medium'')]"

subsection \<open>Verdict\<close>

text \<open>The number that a text of decimal digits denotes.\<close>

definition digit_val :: "char \<Rightarrow> nat" where
  "digit_val c = of_char c - 48"

definition digits_val :: "string \<Rightarrow> nat" where
  "digits_val ds = foldl (\<lambda>acc c. 10 * acc + digit_val c) 0 ds"


text \<open>
  \<open>float(extracted_value.replace('%', '').replace(',', ''))\<close>. A captured value consists
  of digits, commas, at most one point and possibly a final percent sign, so the text
  that reaches \<open>float\<close> is of the form \<open>digits\<close>, \<open>digits.digits\<close> or \<open>.digits\<close>, or
  is empty (only commas were captured), which raises ValueError. The decimal is
  represented exactly, as a mantissa and a number of fraction digits.
\<close>

definition parse_decimal :: "string \<Rightarrow> (nat \<times> nat) option" where
  "parse_decimal t =
     (let whole = takeWhile is_digit t; rest = drop (length whole) t
      in if rest = [] then (if whole = [] then None else Some (digits_val whole, 0))
         else if hd rest = CHR ''.'' \<and> list_all is_digit (tl rest) \<and> (whole \<noteq> [] \<or> tl rest \<noteq> [])
         then Some (digits_val (whole @ tl rest), length (tl rest))
         else None)"

definition float_of_value :: "string \<Rightarrow> (nat \<times> nat) option" where
  "float_of_value extracted_value =
     parse_decimal (filter (\<lambda>c. c \<noteq> CHR ''%'' \<and> c \<noteq> CHR '','') extracted_value)"

text \<open>
  \<open>value > t\<close> for the float nearest to the decimal and a small whole number \<open>t\<close>. The
  float exceeds \<open>t\<close> exactly when the decimal exceeds \<open>t\<close> by more than half the distance
  from \<open>t\<close> to the next float above it (a decimal just halfway rounds to \<open>t\<close>, whose
  mantissa is even). That half distance is \<open>2 ^ (b - 54)\<close> when \<open>t\<close> has \<open>b\<close> binary digits,
  and \<open>2 ^ -1075\<close> for \<open>t = 0\<close>.
\<close>

fun bits :: "nat \<Rightarrow> nat" where
  "bits n = (if n = 0 then 0 else Suc (bits (n div 2)))"

declare bits.simps [simp del]

definition float_gt :: "nat \<times> nat \<Rightarrow> nat \<Rightarrow> bool" where
  "float_gt d t =
     (let p = (if t = 0 then 1075 else 54 - bits t)
      in int (fst d) * 2 ^ p > (int t * 2 ^ p + 1) * 10 ^ snd d)"

definition strong_verification :: "string list" where
  "strong_verification =
     [''verified'', ''audited'', ''certified'', ''validated'', ''confirmed'', ''documented'',
      ''third-party'']"

definition uncertainty_indicators :: "string list" where
  "uncertainty_indicators =
     [''claims'', ''allegedly'', ''reportedly'', ''estimates'', ''approximately'', ''around'',
      ''target'', ''goal'']"

definition contradiction_indicators :: "string list" where
  "contradiction_indicators = [''failed'', ''missed'', ''below'', ''under'', ''insufficient'']"

text \<open>The value-based part: \<open>Some verdict\<close> when one of its branches returns, \<open>None\<close> when
  control falls through to the category defaults.\<close>

definition value_verdict :: "string \<Rightarrow> string \<Rightarrow> nat \<times> nat \<Rightarrow> string option" where
  "value_verdict category claim_type v =
     (if category = ''Financial'' then
        (if claim_type = ''revenue_growth'' \<and> float_gt v 60 then Some ''Contradicted''
         else if claim_type = ''profit_growth'' \<and> float_gt v 150 then Some ''Contradicted''
         else if float_gt v 0 then Some ''Supported''
         else None)
      else if category = ''Operational'' then
        (if claim_type = ''efficiency_improvement'' \<and> float_gt v 50 then Some ''Contradicted''
         else if claim_type = ''customer_satisfaction'' \<and> float_gt v 99 then Some ''Contradicted''
         else if claim_type = ''productivity'' \<and> float_gt v 80 then Some ''Contradicted''
         else Some ''Supported'')
      else if category = ''ESG'' then
        (if claim_type = ''carbon_reduction'' \<and> float_gt v 90 then Some ''Contradicted''
         else if claim_type = ''renewable_energy'' \<and> float_gt v 100 then Some ''Contradicted''
         else Some ''Supported'')
      else None)"

definition default_verdict :: "string \<Rightarrow> string \<Rightarrow> string" where
  "default_verdict category confidence =
     (if category = ''Legal & Compliance'' then ''Unverifiable''
      else if confidence = ''high'' then ''Supported''
      else ''Supported'')"

definition analyze_enhanced_verdict ::
  "string \<Rightarrow> string \<Rightarrow> string \<Rightarrow> string option \<Rightarrow> string \<Rightarrow> string" where
  "analyze_enhanced_verdict text category claim_type extracted_value confidence =
     (if any_in strong_verification text then ''Confirmed''
      else if any_in contradiction_indicators text then ''Contradicted''
      else if any_in uncertainty_indicators text then ''Unverifiable''
      else (case extracted_value of
              None \<Rightarrow> default_verdict category confidence
            | Some ev \<Rightarrow>
                if ev = [] then default_verdict category confidence
                else (case float_of_value ev of
                        None \<Rightarrow> default_verdict category confidence
                      | Some v \<Rightarrow>
                          (case value_verdict category claim_type v of
                             Some verdict \<Rightarrow> verdict
                           | None \<Rightarrow> default_verdict category confidence))))"

subsection \<open>Generated texts\<close>

definition generate_enhanced_evidence_summary ::
  "string \<Rightarrow> string \<Rightarrow> string \<Rightarrow> string \<Rightarrow> string \<Rightarrow> string" where
  "generate_enhanced_evidence_summary claim_text category claim_type verdict confidence =
     (let base_summaries =
            [(''Confirmed'', ''Strong verification indicators identified in '' @ py_lower category @
                '' claim with documented evidence and third-party validation markers''),
             (''Supported'', ''Claim demonstrates credibility based on '' @ py_lower category @
                '' industry standards, typical performance metrics, and realistic value ranges''),
             (''Contradicted'', ''Claim contradicts established '' @ py_lower category @
                '' benchmarks, industry norms, and realistic performance expectations''),
             (''Unverifiable'', ''Insufficient publicly available information to independently verify this '' @
                py_lower category @ '' claim through standard verification channels''),
             (''Unsupported'', ''Additional supporting evidence, documentation, and independent validation required to substantiate this '' @
                py_lower category @ '' claim'')];
          summary = (case map_of base_summaries verdict of
                       Some t \<Rightarrow> t | None \<Rightarrow> ''Professional analysis completed'');
          summary1 = summary @
            (if claim_type = ''revenue_growth'' then
               ''. Revenue growth claims require verification against audited financial statements and SEC filings''
             else if claim_type = ''carbon_reduction'' then
               ''. Environmental claims need validation through sustainability reports, third-party audits, and carbon accounting standards''
             else if claim_type = ''efficiency_improvement'' then
               ''. Operational efficiency claims should be benchmarked against industry standards and verified through performance metrics''
             else if claim_type = ''compliance_status'' then
               ''. Compliance claims require verification through regulatory filings, audit reports, and certification documentation''
             else [])
      in summary1 @
           (if confidence = ''high'' then
              ''. High confidence analysis based on specific quantitative indicators''
            else if confidence = ''medium'' then
              ''. Medium confidence analysis based on qualitative institutional statements''
            else []))"

definition context_additions :: "(string \<times> string) list" where
  "context_additions =
     [(''revenue_growth'', ''Revenue growth claims require cross-referencing with official financial reports, market conditions, and industry growth rates''),
      (''carbon_reduction'', ''Environmental impact claims need validation through recognized carbon accounting methodologies and third-party verification''),
      (''efficiency_improvement'', ''Operational efficiency claims should be benchmarked against industry standards and validated through measurable performance indicators''),
      (''compliance_status'', ''Compliance claims require verification through regulatory documentation, audit trails, and certification records''),
      (''automation'', ''Technology implementation claims should be supported by deployment metrics, performance data, and operational impact measurements'')]"

definition generate_enhanced_reasoning ::
  "string \<Rightarrow> string \<Rightarrow> string \<Rightarrow> string \<Rightarrow> string option \<Rightarrow> string \<Rightarrow> string" where
  "generate_enhanced_reasoning claim_text category claim_type verdict extracted_value confidence =
     (let base_reasoning =
            [(''Confirmed'', ''The '' @ py_lower category @
                '' claim contains strong verification indicators and aligns with documented evidence standards and industry best practices''),
             (''Supported'', ''The '' @ py_lower category @
                '' claim appears credible and falls within realistic industry performance ranges based on comparative analysis''),
             (''Contradicted'', ''The '' @ py_lower category @
                '' claim contradicts established industry benchmarks, realistic performance expectations, and typical organizational capabilities''),
             (''Unverifiable'', ''The '' @ py_lower category @
                '' claim lacks sufficient detail, independent verification sources, or publicly available supporting documentation''),
             (''Unsupported'', ''The '' @ py_lower category @
                '' claim requires additional supporting evidence, independent validation, and comprehensive documentation'')];
          reasoning = (case map_of base_reasoning verdict of
                         Some t \<Rightarrow> t | None \<Rightarrow> ''Professional analysis completed'');
          reasoning1 = reasoning @
            (case extracted_value of
               None \<Rightarrow> []
             | Some ev \<Rightarrow>
                 if ev = [] then []
                 else if verdict = ''Contradicted'' then
                   ''. The claimed value of '' @ ev @
                   '' significantly exceeds typical industry performance standards and realistic organizational capabilities''
                 else if verdict = ''Supported'' then
                   ''. The reported value of '' @ ev @
                   '' falls within expected industry performance ranges and demonstrates realistic achievement levels''
                 else if verdict = ''Confirmed'' then
                   ''. The documented value of '' @ ev @
                   '' is supported by verification indicators and aligns with auditable performance metrics''
                 else [])
      in reasoning1 @
           (case map_of context_additions claim_type of
              Some t \<Rightarrow> ''. '' @ t | None \<Rightarrow> []))"

subsection \<open>The detector\<close>

text \<open>The first rule whose pattern is found in the lower-cased sentence, with the text of
  its group (\<open>match.group(1) if match.groups() else None\<close>).\<close>

fun first_match :: "rule list \<Rightarrow> string \<Rightarrow> (string \<times> string \<times> string \<times> string option) option" where
  "first_match [] sentence_lower = None"
| "first_match ((pattern, category, claim_type, confidence) # rules) sentence_lower =
     (case re_search False pattern sentence_lower of
        None \<Rightarrow> first_match rules sentence_lower
      | Some extracted_value \<Rightarrow> Some (category, claim_type, confidence, extracted_value))"

definition pattern_claim ::
  "string \<Rightarrow> nat \<Rightarrow> string \<Rightarrow> string \<times> string \<times> string \<times> string option \<Rightarrow> pyval" where
  "pattern_claim filename i sentence_clean m =
     (case m of (category, claim_type, confidence, extracted_value) \<Rightarrow>
        (let verdict = analyze_enhanced_verdict (py_lower sentence_clean) category claim_type
                         extracted_value confidence
         in PDict (mk_dict
              [(''claim_text'', PStr sentence_clean),
               (''category'', PStr category),
               (''verdict'', PStr verdict),
               (''evidence_summary'', PStr (generate_enhanced_evidence_summary sentence_clean
                    category claim_type verdict confidence)),
               (''verdict_reasoning'', PStr (generate_enhanced_reasoning sentence_clean
                    category claim_type verdict extracted_value confidence)),
               (''source_context'', PStr sentence_clean),
               (''metadata'', PDict (mk_dict
                  [(''source'', PStr filename),
                   (''source_chunk_id'', PInt (int i)),
                   (''claim_type'', PStr claim_type),
                   (''extracted_value'',
                      (case extracted_value of None \<Rightarrow> PNone | Some ev \<Rightarrow> PStr ev)),
                   (''confidence'', PStr confidence),
                   (''analysis_method'', PStr ''enhanced_pattern_matching'')]))])))"

text \<open>The loop over \<open>enumerate(sentences)\<close>: a sentence shorter than 40 characters is
  skipped, and so is one that no rule matches.\<close>

fun scan_sentences :: "string \<Rightarrow> nat \<Rightarrow> string list \<Rightarrow> pyval list" where
  "scan_sentences filename i [] = []"
| "scan_sentences filename i (sentence # sentences) =
     (let sentence_clean = py_strip sentence
      in if length sentence_clean < 40 then scan_sentences filename (Suc i) sentences
         else (case first_match claim_patterns (py_lower sentence_clean) of
                 None \<Rightarrow> scan_sentences filename (Suc i) sentences
               | Some m \<Rightarrow>
                   pattern_claim filename i sentence_clean m
                   # scan_sentences filename (Suc i) sentences))"

definition institutional_keywords :: "string list" where
  "institutional_keywords =
     [''company'', ''corporation'', ''organization'', ''firm'', ''business'', ''enterprise'',
      ''annual report'', ''sustainability report'', ''performance'', ''results'', ''metrics'']"

text \<open>\<open>', '.join(xs)\<close>\<close>

fun join_comma :: "string list \<Rightarrow> string" where
  "join_comma [] = []"
| "join_comma [x] = x"
| "join_comma (x # y # ys) = x @ '', '' @ join_comma (y # ys)"

definition analyze_general_institutional_content :: "string \<Rightarrow> string \<Rightarrow> pyval list" where
  "analyze_general_institutional_content content filename =
     (let content_lower = py_lower content
      in if any_in institutional_keywords content_lower then
           (let percentage_matches = re_findall False pct content;
                money_matches = re_findall True
                  (Seq [amount, one_of [''million'', ''billion'', ''thousand'']]) content
            in if percentage_matches \<noteq> [] \<or> money_matches \<noteq> [] then
                 [PDict (mk_dict
                    [(''claim_text'', PStr (''Document contains institutional performance data and metrics: '' @
                         join_comma (take 5 percentage_matches @ take 5 money_matches))),
                     (''category'', PStr (if money_matches \<noteq> [] then ''Financial'' else ''Operational'')),
                     (''verdict'', PStr ''Unverifiable''),
                     (''evidence_summary'', PStr ''Quantitative institutional data identified requiring external verification against official sources and independent validation''),
                     (''verdict_reasoning'', PStr ''Numerical performance data in institutional documents needs comprehensive cross-referencing with audited reports, regulatory filings, and independent verification sources''),
                     (''source_context'', PStr (if length content > 600 then take 600 content @ ''...'' else content)),
                     (''metadata'', PDict (mk_dict
                        [(''source'', PStr filename),
                         (''source_chunk_id'', PInt 0),
                         (''claim_type'', PStr ''quantitative_general''),
                         (''analysis_method'', PStr ''general_content_analysis'')]))])]
               else [])
         else [])"

definition use_enhanced_pattern_analysis :: "string \<Rightarrow> string \<Rightarrow> pyval list" where
  "use_enhanced_pattern_analysis content filename =
     (let claims = scan_sentences filename 0 (sentences_of content)
      in if claims = [] \<and> length content > 200
         then claims @ analyze_general_institutional_content content filename
         else claims)"

section \<open>The trust scorers (\<open>robust_professional_main.py\<close>)\<close>

text \<open>
  Both scorers take dicts of any content. Every step that can raise on an ill-typed value
  is modelled with its exception; each scorer wraps its whole body in
  \<open>try ... except Exception\<close> and returns 50 from the handler.
\<close>

subsection \<open>More operations on dynamically typed values\<close>

text \<open>\<open>x > n\<close> for a whole number \<open>n\<close>: numbers and booleans compare by value, any other
  operand raises TypeError.\<close>

fun py_gt :: "pyval \<Rightarrow> int \<Rightarrow> exn + bool" where
  "py_gt (PBool b) n = Inr ((if b then 1 else 0) > n)"
| "py_gt (PInt i) n = Inr (i > n)"
| "py_gt (PFloat r) n = Inr (r > of_int n)"
| "py_gt _ n = Inl TypeError"

text \<open>\<open>table.get(key, default)\<close> for a table with string keys and a key of any type: an
  unhashable key raises TypeError, a key that is no string finds nothing.\<close>

fun table_get :: "(string \<times> int) list \<Rightarrow> pyval \<Rightarrow> int \<Rightarrow> exn + int" where
  "table_get table (PStr k) dflt = Inr (case map_of table k of None \<Rightarrow> dflt | Some v \<Rightarrow> v)"
| "table_get table (PList xs) dflt = Inl TypeError"
| "table_get table (PDict d) dflt = Inl TypeError"
| "table_get table _ dflt = Inr dflt"

text \<open>\<open>x == "text"\<close> and \<open>x in [texts]\<close> for a value of any type.\<close>

fun is_text :: "pyval \<Rightarrow> string \<Rightarrow> bool" where
  "is_text (PStr s) t = (s = t)"
| "is_text _ t = False"

definition in_texts :: "pyval \<Rightarrow> string list \<Rightarrow> bool" where
  "in_texts v ts = list_ex (is_text v) ts"

text \<open>\<open>len(x) > n\<close>\<close>

definition longer_than :: "pyval \<Rightarrow> nat \<Rightarrow> exn + bool" where
  "longer_than v n = bnd (py_len v) (\<lambda>l. Inr (l > n))"

subsection \<open>Claim specificity\<close>

definition percent_rx :: rx where
  "percent_rx = Seq [Plus Digit, Opt (Seq [Lit ''.'', Plus Digit]), Lit ''%'']"

definition money_rx :: rx where
  "money_rx = Seq [Opt (Lit ''$''), Plus (Either Digit (Lits '','')), Opt (Seq [Lit ''.'', Plus Digit]),
                   Star Space, one_of [''million'', ''billion'', ''thousand'']]"

definition multiplier_rx :: rx where
  "multiplier_rx = Seq [Plus Digit, Opt (Seq [Lit ''.'', Plus Digit]), Star Space,
                        one_of [''times'', ''fold'', ''x'']]"

definition year_rx :: rx where
  "year_rx = Rep 4 Digit"

definition rx_found :: "bool \<Rightarrow> rx \<Rightarrow> string \<Rightarrow> bool" where
  "rx_found ic r s = (re_search ic r s \<noteq> None)"

definition specific_terms :: "string list" where
  "specific_terms =
     [''increased'', ''decreased'', ''improved'', ''reduced'', ''achieved'', ''exceeded'', ''reached'']"

text \<open>\<open>re.search\<close> raises TypeError on a value that is no string.\<close>

fun assess_claim_specificity :: "pyval \<Rightarrow> exn + int" where
  "assess_claim_specificity (PStr claim_text) =
     Inr (min 25
       ((if rx_found False percent_rx claim_text then 8 else 0)
        + (if rx_found True money_rx claim_text then 8 else 0)
        + (if rx_found True multiplier_rx claim_text then 6 else 0)
        + (if rx_found False year_rx claim_text then 3 else 0)
        + min 5 (int (count_in specific_terms (py_lower claim_text)))
        + (if length claim_text > 100 then 3 else 0)))"
| "assess_claim_specificity _ = Inl TypeError"

subsection \<open>Evidence quality\<close>

text \<open>The points of one evidence item: only a dict counts; its source must be a string
  and its relevance score a number.\<close>

fun evidence_points :: "pyval \<Rightarrow> exn + int" where
  "evidence_points (PDict d) =
     bnd (py_get (PDict d) ''source'' (PStr [])) (\<lambda>src.
     bnd (py_lower_val src) (\<lambda>source.
     bnd (py_get (PDict d) ''relevance_score'' (PInt 0)) (\<lambda>rel.
     bnd (py_gt rel 70) (\<lambda>relevant.
       Inr ((if any_in [''government'', ''academic'', ''official'', ''sec'', ''epa''] source
             then 3 else 0)
            + (if relevant then 2 else 0))))))"
| "evidence_points _ = Inr 0"

text \<open>A sum over a list, stopping at the first exception.\<close>

fun sum_points :: "('a \<Rightarrow> exn + int) \<Rightarrow> 'a list \<Rightarrow> exn + int" where
  "sum_points f [] = Inr 0"
| "sum_points f (x # xs) = bnd (f x) (\<lambda>a. bnd (sum_points f xs) (\<lambda>b. Inr (a + b)))"

fun evidence_part :: "pyval \<Rightarrow> exn + int" where
  "evidence_part (PStr evidence) =
     Inr ((if length evidence > 100 then 10 else 0)
          + (if any_in [''verified'', ''confirmed'', ''documented'', ''official''] (py_lower evidence)
             then 5 else 0))"
| "evidence_part (PList evidence) =
     (if length evidence > 0
      then bnd (sum_points evidence_points evidence) (\<lambda>points.
             Inr (min 15 (int (length evidence) * 3) + points))
      else Inr 0)"
| "evidence_part _ = Inr 0"

definition assess_evidence_quality :: "pyval \<Rightarrow> exn + int" where
  "assess_evidence_quality claim_data =
     bnd (py_get claim_data ''evidence'' (PList [])) (\<lambda>evidence.
     bnd (evidence_part evidence) (\<lambda>score.
     bnd (py_get claim_data ''evidence_summary'' (PStr [])) (\<lambda>evidence_summary.
     bnd (longer_than evidence_summary 150) (\<lambda>long.
       Inr (min 30 (score + (if long then 5 else 0)))))))"

subsection \<open>Verdict confidence\<close>

definition verdict_scores :: "(string \<times> int) list" where
  "verdict_scores =
     [(''Confirmed'', 20), (''Supported'', 15), (''Unverifiable'', 8), (''Contradicted'', 5),
      (''Unsupported'', 3)]"

definition assess_verdict_confidence :: "pyval \<Rightarrow> pyval \<Rightarrow> exn + int" where
  "assess_verdict_confidence verdict claim_data =
     bnd (table_get verdict_scores verdict 10) (\<lambda>base_score.
     bnd (py_get claim_data ''verdict_reasoning'' (PStr [])) (\<lambda>reasoning.
     bnd (longer_than reasoning 200) (\<lambda>long.
     bnd (py_lower_val reasoning) (\<lambda>reasoning_lower.
       Inr (min 20
         (base_score + (if long then 2 else 0)
          + (if any_in [''analysis'', ''verification'', ''cross-reference'', ''validation'']
                  reasoning_lower
             then 1 else 0)))))))"

subsection \<open>Source credibility\<close>

text \<open>\<open>unique_sources.add(...)\<close> for each dict among the evidence items; the result is the
  set as a list without duplicates. An unhashable source raises TypeError.\<close>

fun unique_sources :: "pyval list \<Rightarrow> pyval list \<Rightarrow> exn + pyval list" where
  "unique_sources seen [] = Inr seen"
| "unique_sources seen (PDict d # evs) =
     bnd (py_get (PDict d) ''source'' (PStr ''unknown'')) (\<lambda>src.
       if hashable src
       then unique_sources (if list_ex (key_eq src) seen then seen else seen @ [src]) evs
       else Inl TypeError)"
| "unique_sources seen (ev # evs) = unique_sources seen evs"

fun diversity_part :: "pyval \<Rightarrow> exn + int" where
  "diversity_part (PList evidence) =
     bnd (unique_sources [] evidence) (\<lambda>us. Inr (min 7 (int (length us))))"
| "diversity_part _ = Inr 0"

definition assess_source_credibility :: "pyval \<Rightarrow> exn + int" where
  "assess_source_credibility claim_data =
     bnd (py_get claim_data ''metadata'' (PDict [])) (\<lambda>metadata.
     bnd (py_get metadata ''source'' (PStr [])) (\<lambda>src.
     bnd (py_lower_val src) (\<lambda>source.
     bnd (py_get claim_data ''evidence'' (PList [])) (\<lambda>evidence.
     bnd (diversity_part evidence) (\<lambda>diversity.
       Inr (min 15
         ((if any_in [''gov'', ''edu'', ''official'', ''sec'', ''epa'', ''academic''] source then 8
           else if any_in [''report'', ''filing'', ''audit'', ''statement''] source then 5
           else 2)
          + diversity)))))))"

subsection \<open>Category bonus\<close>

definition category_terms :: "pyval \<Rightarrow> (string list \<times> string list) option" where
  "category_terms category =
     (if is_text category ''Financial'' then
        Some ([''revenue'', ''profit'', ''earnings'', ''financial''],
              [''sec'', ''gaap'', ''audited'', ''quarterly''])
      else if is_text category ''ESG'' then
        Some ([''carbon'', ''emissions'', ''sustainability'', ''environmental''],
              [''epa'', ''iso'', ''certified'', ''verified''])
      else if is_text category ''Operational'' then
        Some ([''efficiency'', ''productivity'', ''performance'', ''operational''],
              [''measured'', ''tracked'', ''monitored'', ''kpi''])
      else if is_text category ''Legal & Compliance'' then
        Some ([''compliance'', ''regulatory'', ''legal'', ''audit''],
              [''certified'', ''approved'', ''compliant'', ''regulation''])
      else None)"

definition assess_category_specific_factors :: "pyval \<Rightarrow> pyval \<Rightarrow> exn + int" where
  "assess_category_specific_factors category claim_text =
     bnd (py_lower_val claim_text) (\<lambda>claim_lower.
       Inr (min 10
         (case category_terms category of
            None \<Rightarrow> 0
          | Some (topic_terms, assurance_terms) \<Rightarrow>
              (if any_in topic_terms claim_lower then 5 else 0)
              + (if any_in assurance_terms claim_lower then 3 else 0))))"

subsection \<open>The two scorers\<close>

text \<open>The body of the \<open>try\<close> block, and the function with its handler.\<close>

definition sophisticated_body :: "pyval \<Rightarrow> pyval \<Rightarrow> exn + int" where
  "sophisticated_body claim original_claim_data =
     bnd (assess_evidence_quality original_claim_data) (\<lambda>evidence_quality.
     bnd (py_getitem claim ''claim_text'') (\<lambda>claim_text.
     bnd (assess_claim_specificity claim_text) (\<lambda>specificity.
     bnd (py_getitem claim ''verdict'') (\<lambda>verdict.
     bnd (assess_verdict_confidence verdict original_claim_data) (\<lambda>verdict_confidence.
     bnd (assess_source_credibility original_claim_data) (\<lambda>source_credibility.
     bnd (py_getitem claim ''category'') (\<lambda>category.
     bnd (py_getitem claim ''claim_text'') (\<lambda>claim_text2.
     bnd (assess_category_specific_factors category claim_text2) (\<lambda>category_bonus.
       Inr (max 15 (min 95
         (evidence_quality + specificity + verdict_confidence + source_credibility
          + category_bonus))))))))))))"

definition calculate_sophisticated_trust_score :: "pyval \<Rightarrow> pyval \<Rightarrow> int" where
  "calculate_sophisticated_trust_score claim original_claim_data =
     (case sophisticated_body claim original_claim_data of
        Inl e \<Rightarrow> 50
      | Inr final_score \<Rightarrow> final_score)"

text \<open>Factor 1 of the pattern-based scorer. \<open>len\<close> of a number raises TypeError; iterating
  over a non-empty string or dict yields strings or keys, which have no \<open>get\<close>.\<close>

definition credible_source :: "pyval \<Rightarrow> exn + int" where
  "credible_source source =
     bnd (py_get source ''source_type'' PNone) (\<lambda>source_type.
       Inr (if in_texts source_type [''Government'', ''Academic'', ''Financial''] then 1 else 0))"

fun web_evidence_points :: "pyval \<Rightarrow> exn + int" where
  "web_evidence_points (PList evidence_sources) =
     (if evidence_sources \<noteq> []
      then bnd (sum_points credible_source evidence_sources) (\<lambda>credible_count.
             Inr (min 20 (int (length evidence_sources) * 4) + min 10 (credible_count * 2)))
      else Inr 5)"
| "web_evidence_points (PStr s) = (if s \<noteq> [] then Inl AttributeError else Inr 5)"
| "web_evidence_points (PDict d) = (if d \<noteq> [] then Inl AttributeError else Inr 5)"
| "web_evidence_points v = (if py_truthy v then Inl TypeError else Inr 5)"

definition confidence_scores :: "(string \<times> int) list" where
  "confidence_scores = [(''high'', 15), (''medium'', 10), (''low'', 5)]"

definition content_quality :: "pyval \<Rightarrow> pyval \<Rightarrow> exn + int" where
  "content_quality claim claim_text =
     bnd (longer_than claim_text 100) (\<lambda>long_text.
     bnd (py_get claim ''evidence_summary'' (PStr [])) (\<lambda>evidence_summary.
     bnd (longer_than evidence_summary 100) (\<lambda>long_summary.
     bnd (py_get claim ''verdict_reasoning'' (PStr [])) (\<lambda>verdict_reasoning.
     bnd (longer_than verdict_reasoning 150) (\<lambda>long_reasoning.
       Inr ((if long_text then 5 else 0) + (if long_summary then 3 else 0)
            + (if long_reasoning then 2 else 0)))))))"

definition pattern_based_body :: "pyval \<Rightarrow> pyval \<Rightarrow> exn + int" where
  "pattern_based_body claim evidence_sources =
     bnd (web_evidence_points evidence_sources) (\<lambda>web_points.
     bnd (py_getitem claim ''claim_text'') (\<lambda>claim_text.
     bnd (assess_claim_specificity claim_text) (\<lambda>specificity.
     bnd (py_getitem claim ''verdict'') (\<lambda>verdict.
     bnd (table_get verdict_scores verdict 10) (\<lambda>verdict_points.
     bnd (py_get claim ''metadata'' (PDict [])) (\<lambda>metadata.
     bnd (py_get metadata ''confidence'' (PStr ''medium'')) (\<lambda>confidence.
     bnd (table_get confidence_scores confidence 10) (\<lambda>confidence_points.
     bnd (content_quality claim claim_text) (\<lambda>quality_points.
       Inr (max 15 (min 95
         (web_points + specificity + verdict_points + confidence_points
          + quality_points))))))))))))"

definition calculate_pattern_based_trust_score :: "pyval \<Rightarrow> pyval \<Rightarrow> int" where
  "calculate_pattern_based_trust_score claim evidence_sources =
     (case pattern_based_body claim evidence_sources of
        Inl e \<Rightarrow> 50
      | Inr final_score \<Rightarrow> final_score)"

text \<open>A bound on a result that may be an exception: it holds of every value returned.\<close>

fun at_most :: "int \<Rightarrow> exn + int \<Rightarrow> bool" where
  "at_most b (Inl e) = True"
| "at_most b (Inr n) = (n \<le> b)"

fun in_range :: "exn + int \<Rightarrow> bool" where
  "in_range (Inl e) = True"
| "in_range (Inr n) = (15 \<le> n \<and> n \<le> 95)"

section \<open>The university review analyzer (\<open>university_reviews.py\<close>)\<close>

subsection \<open>Keyword heuristics\<close>










subsection \<open>Review records and the scrapers\<close>

text \<open>
  A review item is a dict with fixed keys. Only the platform scraper for CollegeDunia
  stores a \<open>rating\<close>; \<open>review.get('rating')\<close> is None for the others.
\<close>

record review =
  content :: string
  source :: string
  url :: string
  rating :: "string option"
  sentiment :: string
  review_type :: string
  date_found :: string
  complaints :: "string list"
  relevance_score :: nat















subsection \<open>Aggregation\<close>

text \<open>
  The result accumulator of \<open>search_university_reviews\<close>. The fields that
  \<open>analyze_real_review_patterns\<close> does not touch (name, ranking, sources, status, debug
  information) are the extension of the record.
\<close>

record summary =
  total_negative_reviews :: nat
  total_positive_reviews :: nat
  average_rating :: rat
  common_complaints :: "(string \<times> nat) list"
  common_praises :: "(string \<times> nat) list"

record results =
  negative_reviews :: "review list"
  positive_reviews :: "review list"
  review_summary :: summary

text \<open>
  Ratings are Python floats in the source. Here a rating is the rational number that its
  decimal text denotes, and the average is rounded to two decimals in the rationals: the
  binary rounding of \<open>float\<close>, of the sum and of \<open>round\<close> is not represented.
\<close>

text \<open>The value of a text of the form \<open>digits\<close> or \<open>digits.digits\<close>.\<close>

definition decimal_val :: "string \<Rightarrow> rat" where
  "decimal_val t =
     (let whole = takeWhile is_digit t; frac = drop (length whole + 1) t
      in of_nat (digits_val whole) + of_nat (digits_val frac) / of_nat (10 ^ length frac))"

text \<open>\<open>extract_numeric_rating\<close>: the first \<open>(\d+(?:\.\d+)?)\<close> of the rating text.\<close>

definition number_pattern :: rx where
  "number_pattern = Grp (Seq [Plus Digit, Opt (Seq [Lit ''.'', Plus Digit])])"

definition extract_numeric_rating :: "string option \<Rightarrow> rat option" where
  "extract_numeric_rating rating_str =
     (case rating_str of
        None \<Rightarrow> None
      | Some t \<Rightarrow>
          if t = [] then None
          else (case re_search False number_pattern t of
                  Some (Some g) \<Rightarrow> Some (decimal_val g)
                | _ \<Rightarrow> None))"

text \<open>The ratings of a list of reviews that are present and not zero (\<open>if rating:\<close>).\<close>

definition ratings_of :: "review list \<Rightarrow> rat list" where
  "ratings_of reviews =
     concat (map (\<lambda>review. case extract_numeric_rating (rating review) of
                              None \<Rightarrow> []
                            | Some r \<Rightarrow> if r \<noteq> 0 then [r] else []) reviews)"

text \<open>Frequencies, as a dict filled in the order of first occurrence.\<close>

fun bump :: "(string \<times> nat) list \<Rightarrow> string \<Rightarrow> (string \<times> nat) list" where
  "bump [] k = [(k, 1)]"
| "bump ((k', n) # counts) k = (if k' = k then (k', n + 1) # counts else (k', n) # bump counts k)"

definition count_frequencies :: "string list \<Rightarrow> (string \<times> nat) list" where
  "count_frequencies xs = foldl bump [] xs"

text \<open>\<open>sorted(counts.items(), key=lambda x: x[1], reverse=True)[:5]\<close>: stable, most frequent
  first.\<close>

definition top_five :: "(string \<times> nat) list \<Rightarrow> (string \<times> nat) list" where
  "top_five counts = take 5 (sort_key (\<lambda>(cat, freq). - int freq) counts)"

definition round2 :: "rat \<Rightarrow> rat" where
  "round2 r =
     (let scaled = r * 100; lower = floor scaled; rest = scaled - of_int lower;
          nearest = (if rest < 1 / 2 then lower
                     else if rest > 1 / 2 then lower + 1
                     else if even lower then lower else lower + 1)
      in of_int nearest / 100)"

definition analyze_real_review_patterns :: "('a results_scheme) \<Rightarrow> ('a results_scheme)" where
  "analyze_real_review_patterns res =
     (let negative = negative_reviews res;
          positive = positive_reviews res;
          res1 = res\<lparr>review_summary := (review_summary res)
                   \<lparr>total_negative_reviews := length negative,
                    total_positive_reviews := length positive\<rparr>\<rparr>
      in if negative = [] \<and> positive = [] then res1
         else
           (let all_complaints = concat (map complaints negative);
                all_praises = concat (map complaints positive);
                total_ratings = ratings_of negative @ ratings_of positive;
                res2 = res1\<lparr>review_summary := (review_summary res1)
                         \<lparr>common_complaints := top_five (count_frequencies all_complaints),
                          common_praises := top_five (count_frequencies all_praises)\<rparr>\<rparr>
            in if total_ratings \<noteq> []
               then res2\<lparr>review_summary := (review_summary res2)
                      \<lparr>average_rating :=
                         round2 (sum_list total_ratings / of_nat (length total_ratings))\<rparr>\<rparr>
               else res2))"

section \<open>Concrete inputs\<close>

text \<open>Concrete inputs for the runs below: a claim with one evidence item, a model answer
  that lists two queries, and a corpus of one chunk.\<close>

definition demo_claim :: pydict where
  "demo_claim = mk_dict
     [(''claim_text'', PStr ''Revenue grew''),
      (''evidence'', PList [PDict (mk_dict [(''source'', PStr ''Web''), (''relevance_score'', PInt 0)])])]"

definition demo_response :: string where
  "demo_response = ''1. revenue growth 2023'' @ [CHR 0x0A] @ ''2.  annual report''"

definition demo_chunks :: "chunk list" where
  "demo_chunks =
     [\<lparr>page_content = ''Quantum lattice models'',
       metadata = mk_dict [(''source_paper'', PStr ''evidence_paper_1.pdf'')]\<rparr>]"







text \<open>A scored claim with its original pipeline data and its web evidence sources.\<close>

definition demo_scored_claim :: pyval where
  "demo_scored_claim = PDict (mk_dict
     [(''claim_text'', PStr ''Revenue increased by 75% to $12 million in 2023''),
      (''category'', PStr ''Financial''),
      (''verdict'', PStr ''Supported''),
      (''evidence_summary'', PStr ''LLM-based professional analysis completed''),
      (''verdict_reasoning'', PStr ''Cross-checked''),
      (''metadata'', PDict (mk_dict [(''source'', PStr ''annual_report.pdf''),
                                     (''confidence'', PStr ''high'')]))])"

definition demo_original :: pyval where
  "demo_original = PDict (mk_dict
     [(''claim_text'', PStr ''Revenue increased by 75% to $12 million in 2023''),
      (''evidence'', PList
         [PDict (mk_dict [(''source'', PStr ''Official SEC filing''), (''relevance_score'', PInt 80)]),
          PDict (mk_dict [(''source'', PStr ''Web''), (''relevance_score'', PInt 0)])]),
      (''verdict_reasoning'', PStr ''Based on analysis of the filing''),
      (''metadata'', PDict (mk_dict [(''source'', PStr ''annual_report.pdf'')]))])"

definition demo_sources :: pyval where
  "demo_sources = PList [PDict (mk_dict [(''source_type'', PStr ''Government'')]),
                         PDict (mk_dict [(''source_type'', PStr ''News'')])]"

section \<open>Properties\<close>

lemma key_eq_refl: "key_eq k k"
  by (simp add: key_eq_def split: option.splits)

lemma lookup_dict_set: "lookup (dict_set d k v) k = Some v"
  by (induction d) (auto simp: key_eq_refl)

lemma key_eq_str [simp]: "key_eq (PStr a) b = (b = PStr a)"
  by (auto simp: key_eq_def)

lemma key_eq_sym: "key_eq a b = key_eq b a"
  by (cases a; cases b) (auto simp: key_eq_def)

lemma key_eq_trans: "key_eq a b \<Longrightarrow> key_eq b c \<Longrightarrow> key_eq a c"
  by (cases a; cases b) (auto simp: key_eq_def)

lemma lookup_dict_set_other: "\<not> key_eq k k' \<Longrightarrow> lookup (dict_set d k v) k' = lookup d k'"
proof (induction d)
  case Nil
  then show ?case by (simp add: key_eq_sym)
next
  case (Cons p d)
  obtain a b where p: "p = (a, b)" by (cases p)
  show ?case
  proof (cases "key_eq a k")
    case True
    have "\<not> key_eq a k'" using True Cons.prems key_eq_trans key_eq_sym by blast
    then show ?thesis using True p by simp
  next
    case False
    then show ?thesis using Cons p by simp
  qed
qed

lemma lookup_dict_set_str:
  "lookup (dict_set d (PStr a) v) (PStr b) = (if a = b then Some v else lookup d (PStr b))"
  using lookup_dict_set [of d "PStr a" v] lookup_dict_set_other [of "PStr a" "PStr b" d v]
  by auto

lemma dict_update_error_fields:
  "dict_update d (error_fields r) =
     dict_set (dict_set (dict_set d (PStr ''verdict'') (PStr ''Evaluation Error''))
        (PStr ''evidence_summary'') (PStr ''Failed to parse model JSON.''))
        (PStr ''verdict_reasoning'') (PStr r)"
  by (simp add: dict_update_def error_fields_def mk_dict_def)

lemma dict_update_insufficient_fields:
  "dict_update d insufficient_fields =
     dict_set (dict_set (dict_set d (PStr ''verdict'') (PStr ''Insufficient Evidence''))
        (PStr ''evidence_summary'') (PStr ''No relevant evidence found.''))
        (PStr ''verdict_reasoning'') (PStr ''The search did not yield enough evidence.'')"
  by (simp add: dict_update_def insufficient_fields_def mk_dict_def)


lemma web_results_nothing:
  assumes "\<forall>q\<in>set qs. \<forall>n. \<exists>r. search_run x n q = Inr r \<and> (r = [] \<or> py_contains no_result_marker r)"
  shows "web_results x st qs = (st\<lparr>searches := searches st @ qs\<rparr>, [])"
  using assms
proof (induction qs arbitrary: st)
  case Nil
  then show ?case by simp
next
  case (Cons q qs)
  from Cons.prems obtain r where r: "search_run x (length (searches st)) q = Inr r"
     "r = [] \<or> py_contains no_result_marker r" by (meson list.set_intros(1))
  have ih: "web_results x (st\<lparr>searches := searches st @ [q]\<rparr>) qs
      = (st\<lparr>searches := searches st @ [q]\<rparr>\<lparr>searches := searches (st\<lparr>searches := searches st @ [q]\<rparr>) @ qs\<rparr>, [])"
    using Cons.IH Cons.prems by simp
  show ?case using r ih by auto
qed








lemma choose_category_valid: "choose_category answer \<in> set valid_categories"
  by (simp add: choose_category_def Let_def valid_categories_def)

subsection \<open>Classifier\<close>

text \<open>
  C2, as stated, does not hold. The claim says that a raw model response that does not
  exactly match one of the four category strings yields the default "Operational". The
  classifier strips the response before the comparison: the raw response " Financial"
  (with a leading blank) is none of the four strings, and the category becomes
  "Financial".
\<close>

theorem classify_raw_response_counterexample:
  "'' Financial'' \<notin> set valid_categories \<and>
   snd (classify_claim_type_openrouter (scripted '' Financial'' (Inl JSONDecodeError) []) io0
          (mk_dict [(''claim_text'', PStr ''Revenue grew'')]))
     = Inr (mk_dict [(''claim_text'', PStr ''Revenue grew''), (''category'', PStr ''Financial'')])"
  by (simp add: valid_categories_def classify_claim_type_openrouter_def mk_dict_def
        key_eq_def invoke_def scripted_def io0_def choose_category_def py_strip_def
        py_isspace_def)

text \<open>
  C2, amended: for a claim whose text is a string, whatever string the model returns, the
  classifier returns the claim with its category set to one of the four fixed strings:
  the response with leading and trailing whitespace stripped when that is one of the
  four, and "Operational" otherwise. One model call is logged.
\<close>

theorem classify_category_stripped:
  assumes "lookup claim_data (PStr ''claim_text'') = Some (PStr claim_text)"
    and "chain_invoke x (length (llm_calls st)) ClassifyTemplate
           (mk_dict [(''claim_text'', PStr claim_text)]) = Inr answer"
  shows "classify_claim_type_openrouter x st claim_data =
           (st\<lparr>llm_calls := llm_calls st @
                 [(ClassifyTemplate, mk_dict [(''claim_text'', PStr claim_text)])]\<rparr>,
            Inr (dict_set claim_data (PStr ''category'') (PStr (choose_category answer))))
         \<and> lookup (dict_set claim_data (PStr ''category'') (PStr (choose_category answer)))
               (PStr ''category'') = Some (PStr (choose_category answer))
         \<and> choose_category answer \<in> set valid_categories
         \<and> choose_category answer =
               (if py_strip answer \<in> set valid_categories then py_strip answer
                else ''Operational'')"
  using assms
  by (simp add: classify_claim_type_openrouter_def invoke_def lookup_dict_set
        choose_category_valid)
     (simp add: choose_category_def)

theorem classify_category_stripped_witness:
  "classify_claim_type_openrouter (scripted ''Legal & Compliance  '' (Inl JSONDecodeError) []) io0
       (mk_dict [(''claim_text'', PStr ''The audit passed'')]) =
     (\<lparr>llm_calls = [(ClassifyTemplate, mk_dict [(''claim_text'', PStr ''The audit passed'')])],
       searches = []\<rparr>,
      Inr (mk_dict [(''claim_text'', PStr ''The audit passed''),
                    (''category'', PStr ''Legal & Compliance'')]))"
proof -
  have a: "lookup (mk_dict [(''claim_text'', PStr ''The audit passed'')]) (PStr ''claim_text'')
             = Some (PStr ''The audit passed'')"
    by (simp add: mk_dict_def key_eq_def)
  have b: "chain_invoke (scripted ''Legal & Compliance  '' (Inl JSONDecodeError) [])
             (length (llm_calls io0)) ClassifyTemplate
             (mk_dict [(''claim_text'', PStr ''The audit passed'')]) = Inr ''Legal & Compliance  ''"
    by (simp add: scripted_def)
  have c: "choose_category ''Legal & Compliance  '' = ''Legal & Compliance''"
    by (simp add: choose_category_def py_strip_def py_isspace_def valid_categories_def)
  show ?thesis
    using classify_category_stripped [OF a b]
    by (simp add: c io0_def mk_dict_def key_eq_def)
qed


subsection \<open>Evaluator\<close>

text \<open>
  C3: for non-sentinel evidence the verdict should be one of the four strings the prompt
  asks for, or the marker "Evaluation Error". The evaluator merges whatever JSON the model
  returns into the claim without looking at the verdict: when the model answers
  \<open>{"verdict": "Maybe"}\<close> (read by the JSON decoder as the dict with that one key), the
  claim's verdict is "Maybe", which is none of the five.
\<close>

theorem evaluate_unlisted_verdict:
  \<open>snd (evaluate_claim_openrouter
          (scripted ''{"verdict": "Maybe"}'' (Inr (PDict (mk_dict [(''verdict'', PStr ''Maybe'')]))) [])
          io0 demo_claim)
     = Inr (mk_dict
         [(''claim_text'', PStr ''Revenue grew''),
          (''evidence'', PList [PDict (mk_dict [(''source'', PStr ''Web''), (''relevance_score'', PInt 0)])]),
          (''verdict'', PStr ''Maybe'')])
   \<and> ''Maybe'' \<notin> set evaluator_verdicts\<close>
  by (simp add: evaluate_claim_openrouter_def invoke_def absorb_response_def scripted_def io0_def
      demo_claim_def mk_dict_def dict_update_def evaluator_verdicts_def)


text \<open>
  C6: for a claim whose text is a string and whose evidence is a non-empty list, if the
  model answers and the answer fails to parse as JSON, the evaluator returns normally (no
  exception), the claim keeps its text and its evidence, its verdict is "Evaluation Error"
  and its verdict_reasoning is the raw answer.
\<close>

theorem evaluate_parse_failure:
  assumes ct: "lookup claim_data (PStr ''claim_text'') = Some (PStr claim_text)"
    and ev: "lookup claim_data (PStr ''evidence'') = Some (PList (e # es))"
    and resp: "chain_invoke x (length (llm_calls st)) EvaluateTemplate
           (mk_dict [(''claim_text'', PStr claim_text),
                     (''evidence_json'', PStr (json_dumps x (PList (e # es))))]) = Inr response"
    and bad: "json_loads x response = Inl err"
  shows "snd (evaluate_claim_openrouter x st claim_data) =
            Inr (dict_update claim_data (error_fields response))
       \<and> verdict_of (dict_update claim_data (error_fields response))
            = Some (PStr ''Evaluation Error'')
       \<and> lookup (dict_update claim_data (error_fields response)) (PStr ''verdict_reasoning'')
            = Some (PStr response)
       \<and> lookup (dict_update claim_data (error_fields response)) (PStr ''claim_text'')
            = Some (PStr claim_text)
       \<and> lookup (dict_update claim_data (error_fields response)) (PStr ''evidence'')
            = Some (PList (e # es))"
  using assms
  by (simp add: evaluate_claim_openrouter_def invoke_def absorb_response_def verdict_of_def
        dict_update_error_fields lookup_dict_set_str)

theorem evaluate_parse_failure_witness:
  "snd (evaluate_claim_openrouter (scripted ''I cannot answer'' (Inl JSONDecodeError) []) io0 demo_claim)
     = Inr (mk_dict
         [(''claim_text'', PStr ''Revenue grew''),
          (''evidence'', PList [PDict (mk_dict [(''source'', PStr ''Web''), (''relevance_score'', PInt 0)])]),
          (''verdict'', PStr ''Evaluation Error''),
          (''evidence_summary'', PStr ''Failed to parse model JSON.''),
          (''verdict_reasoning'', PStr ''I cannot answer'')])"
proof -
  have a: "lookup demo_claim (PStr ''claim_text'') = Some (PStr ''Revenue grew'')"
    by (simp add: demo_claim_def mk_dict_def)
  have b: "lookup demo_claim (PStr ''evidence'') =
      Some (PList (PDict (mk_dict [(''source'', PStr ''Web''), (''relevance_score'', PInt 0)]) # []))"
    by (simp add: demo_claim_def mk_dict_def)
  have c: "chain_invoke (scripted ''I cannot answer'' (Inl JSONDecodeError) []) (length (llm_calls io0))
      EvaluateTemplate (mk_dict [(''claim_text'', PStr ''Revenue grew''),
         (''evidence_json'', PStr (json_dumps (scripted ''I cannot answer'' (Inl JSONDecodeError) [])
            (PList (PDict (mk_dict [(''source'', PStr ''Web''), (''relevance_score'', PInt 0)]) # []))))])
      = Inr ''I cannot answer''"
    by (simp add: scripted_def)
  have d: "json_loads (scripted ''I cannot answer'' (Inl JSONDecodeError) []) ''I cannot answer''
      = Inl JSONDecodeError"
    by (simp add: scripted_def)
  show ?thesis
    using evaluate_parse_failure [OF a b c d]
    by (simp add: dict_update_error_fields demo_claim_def mk_dict_def)
qed


subsection \<open>No evidence found\<close>

text \<open>
  C5: if the model returns queries, no query matches a chunk of the local corpus, and every
  web search returns an empty text or one with the "No good DuckDuckGo Search Result"
  marker, then retrieval sets the evidence field to "No reliable evidence was found.";
  on that claim the evaluator returns the fixed verdict "Insufficient Evidence" with the
  fixed summary and reasoning, and leaves the state as it is, whatever the state: no
  model call is logged.
\<close>

theorem no_evidence_short_circuit:
  assumes ct: "lookup claim_data (PStr ''claim_text'') = Some (PStr claim_text)"
    and resp: "chain_invoke x (length (llm_calls st)) QueriesTemplate
                 (mk_dict [(''claim_text'', PStr claim_text)]) = Inr response"
    and nolocal: "\<forall>q\<in>set (parse_queries response). local_results evidence_chunks q = []"
    and web: "\<forall>q\<in>set (parse_queries response). \<forall>n. \<exists>r. search_run x n q = Inr r \<and>
                 (r = [] \<or> py_contains no_result_marker r)"
  shows "retrieve_evidence_openrouter x evidence_chunks st claim_data =
           (st\<lparr>llm_calls := llm_calls st @ [(QueriesTemplate, mk_dict [(''claim_text'', PStr claim_text)])],
               searches := searches st @ parse_queries response\<rparr>,
            Inr (dict_set claim_data (PStr ''evidence'') (PStr ''No reliable evidence was found.'')))
       \<and> evaluate_claim_openrouter x st1
            (dict_set claim_data (PStr ''evidence'') (PStr ''No reliable evidence was found.'')) =
           (st1, Inr (dict_update
              (dict_set claim_data (PStr ''evidence'') (PStr ''No reliable evidence was found.''))
              insufficient_fields))
       \<and> verdict_of (dict_update
              (dict_set claim_data (PStr ''evidence'') (PStr ''No reliable evidence was found.''))
              insufficient_fields) = Some (PStr ''Insufficient Evidence'')
       \<and> lookup (dict_update
              (dict_set claim_data (PStr ''evidence'') (PStr ''No reliable evidence was found.''))
              insufficient_fields) (PStr ''evidence_summary'') = Some (PStr ''No relevant evidence found.'')
       \<and> lookup (dict_update
              (dict_set claim_data (PStr ''evidence'') (PStr ''No reliable evidence was found.''))
              insufficient_fields) (PStr ''verdict_reasoning'')
            = Some (PStr ''The search did not yield enough evidence.'')"
proof -
  have found: "concat (map (local_results evidence_chunks) (parse_queries response)) = []"
    using nolocal by simp
  have r: "retrieve_evidence_openrouter x evidence_chunks st claim_data =
           (st\<lparr>llm_calls := llm_calls st @ [(QueriesTemplate, mk_dict [(''claim_text'', PStr claim_text)])],
               searches := searches st @ parse_queries response\<rparr>,
            Inr (dict_set claim_data (PStr ''evidence'') (PStr ''No reliable evidence was found.'')))"
    using ct resp found web_results_nothing [OF web]
    by (simp add: retrieve_evidence_openrouter_def invoke_def Let_def no_evidence_text_def)
  have e: "evaluate_claim_openrouter x st1
            (dict_set claim_data (PStr ''evidence'') (PStr ''No reliable evidence was found.'')) =
           (st1, Inr (dict_update
              (dict_set claim_data (PStr ''evidence'') (PStr ''No reliable evidence was found.''))
              insufficient_fields))"
    using ct by (simp add: evaluate_claim_openrouter_def lookup_dict_set_str)
  show ?thesis
    using r e by (simp add: verdict_of_def dict_update_insufficient_fields lookup_dict_set_str)
qed


theorem no_evidence_short_circuit_witness:
  "retrieve_evidence_openrouter
      (scripted demo_response (Inl JSONDecodeError) ''No good DuckDuckGo Search Result was found.'')
      demo_chunks io0 (mk_dict [(''claim_text'', PStr ''Revenue grew'')]) =
     (\<lparr>llm_calls = [(QueriesTemplate, mk_dict [(''claim_text'', PStr ''Revenue grew'')])],
       searches = [''revenue growth 2023'', ''annual report'']\<rparr>,
      Inr (mk_dict [(''claim_text'', PStr ''Revenue grew''),
                    (''evidence'', PStr ''No reliable evidence was found.'')]))
   \<and> evaluate_claim_openrouter
      (scripted demo_response (Inl JSONDecodeError) ''No good DuckDuckGo Search Result was found.'')
      io0 (mk_dict [(''claim_text'', PStr ''Revenue grew''),
                    (''evidence'', PStr ''No reliable evidence was found.'')]) =
     (io0,
      Inr (mk_dict [(''claim_text'', PStr ''Revenue grew''),
                    (''evidence'', PStr ''No reliable evidence was found.''),
                    (''verdict'', PStr ''Insufficient Evidence''),
                    (''evidence_summary'', PStr ''No relevant evidence found.''),
                    (''verdict_reasoning'', PStr ''The search did not yield enough evidence.'')]))"
proof -
  let ?x = "scripted demo_response (Inl JSONDecodeError) ''No good DuckDuckGo Search Result was found.''"
  have pq: "parse_queries demo_response = [''revenue growth 2023'', ''annual report'']"
    by (simp add: demo_response_def parse_queries_def py_strip_def py_isspace_def
          re_strip_prefix_def enum_marker_def is_digit_def greedy_rests_def)
  have a: "lookup (mk_dict [(''claim_text'', PStr ''Revenue grew'')]) (PStr ''claim_text'')
             = Some (PStr ''Revenue grew'')"
    by (simp add: mk_dict_def)
  have b: "chain_invoke ?x (length (llm_calls io0)) QueriesTemplate
             (mk_dict [(''claim_text'', PStr ''Revenue grew'')]) = Inr demo_response"
    by (simp add: scripted_def)
  have c: "\<forall>q\<in>set (parse_queries demo_response). local_results demo_chunks q = []"
    by (simp add: pq local_results_def demo_chunks_def chunk_score_def count_in_def
          key_terms_def word_runs_def py_lower_def lower_char_def is_word_def)
  have d: "\<forall>q\<in>set (parse_queries demo_response). \<forall>n. \<exists>r. search_run ?x n q = Inr r \<and>
             (r = [] \<or> py_contains no_result_marker r)"
    by (simp add: scripted_def no_result_marker_def)
  show ?thesis
    using no_evidence_short_circuit [OF a b c d, of io0]
    by (simp add: pq io0_def mk_dict_def dict_update_insufficient_fields)
qed


subsection \<open>University reviews\<close>

text \<open>
  C7: after \<open>analyze_real_review_patterns\<close>, for any accumulated result, the two totals of
  the summary equal the lengths of the two review lists (which the analysis leaves as
  they were).
\<close>

theorem review_totals_match:
  "total_negative_reviews (review_summary (analyze_real_review_patterns res))
     = length (negative_reviews (analyze_real_review_patterns res))
   \<and> total_positive_reviews (review_summary (analyze_real_review_patterns res))
     = length (positive_reviews (analyze_real_review_patterns res))
   \<and> negative_reviews (analyze_real_review_patterns res) = negative_reviews res
   \<and> positive_reviews (analyze_real_review_patterns res) = positive_reviews res"
  by (simp add: analyze_real_review_patterns_def Let_def)










subsection \<open>Trust scores\<close>

lemma at_most_bnd: "(\<And>x. at_most b (f x)) \<Longrightarrow> at_most b (bnd m f)"
  by (cases m) auto

lemma in_range_bnd: "(\<And>x. in_range (f x)) \<Longrightarrow> in_range (bnd m f)"
  by (cases m) auto

lemma evidence_quality_cap: "at_most 30 (assess_evidence_quality d)"
  unfolding assess_evidence_quality_def by (intro at_most_bnd) simp

lemma claim_specificity_cap: "at_most 25 (assess_claim_specificity t)"
  by (cases t) simp_all

lemma verdict_confidence_cap: "at_most 20 (assess_verdict_confidence v d)"
  unfolding assess_verdict_confidence_def by (intro at_most_bnd) simp

lemma source_credibility_cap: "at_most 15 (assess_source_credibility d)"
  unfolding assess_source_credibility_def by (intro at_most_bnd) simp

lemma category_bonus_cap: "at_most 10 (assess_category_specific_factors c t)"
  unfolding assess_category_specific_factors_def by (intro at_most_bnd) simp

lemma web_evidence_cap: "at_most 30 (web_evidence_points e)"
proof (cases e)
  case (PList xs)
  show ?thesis unfolding PList web_evidence_points.simps
    by (cases "xs = []") (auto intro!: at_most_bnd)
qed simp_all

lemma verdict_points_cap: "at_most 20 (table_get verdict_scores v 10)"
  by (cases v) (auto simp: verdict_scores_def)

lemma confidence_points_cap: "at_most 15 (table_get confidence_scores v 10)"
  by (cases v) (auto simp: confidence_scores_def)

lemma content_quality_cap: "at_most 10 (content_quality c t)"
  unfolding content_quality_def by (intro at_most_bnd) simp

lemma sophisticated_body_range: "in_range (sophisticated_body c d)"
  unfolding sophisticated_body_def by (intro in_range_bnd) simp

lemma pattern_based_body_range: "in_range (pattern_based_body c e)"
  unfolding pattern_based_body_def by (intro in_range_bnd) simp

lemma sophisticated_range:
  "15 \<le> calculate_sophisticated_trust_score c d \<and> calculate_sophisticated_trust_score c d \<le> 95"
  using sophisticated_body_range [of c d]
  by (cases "sophisticated_body c d") (simp_all add: calculate_sophisticated_trust_score_def)

lemma pattern_based_range:
  "15 \<le> calculate_pattern_based_trust_score c e \<and> calculate_pattern_based_trust_score c e \<le> 95"
  using pattern_based_body_range [of c e]
  by (cases "pattern_based_body c e") (simp_all add: calculate_pattern_based_trust_score_def)

text \<open>
  C1: for a claim, original claim data and evidence of any type and content, both scorers
  return a whole number between 15 and 95 (the handler's 50 included), and each of the
  five sub-scores of the sophisticated scorer, whenever it returns, is at most its cap:
  evidence quality 30, claim specificity 25, verdict confidence 20, source credibility 15,
  category bonus 10. The five factors of the pattern-based scorer are capped in the same
  way: web evidence 30, claim specificity 25, verdict 20, pattern confidence 15, content
  quality 10.
\<close>

theorem trust_score_bounds:
  "15 \<le> calculate_sophisticated_trust_score claim original_claim_data
   \<and> calculate_sophisticated_trust_score claim original_claim_data \<le> 95
   \<and> 15 \<le> calculate_pattern_based_trust_score claim evidence_sources
   \<and> calculate_pattern_based_trust_score claim evidence_sources \<le> 95
   \<and> at_most 30 (assess_evidence_quality original_claim_data)
   \<and> at_most 25 (assess_claim_specificity claim_text)
   \<and> at_most 20 (assess_verdict_confidence verdict original_claim_data)
   \<and> at_most 15 (assess_source_credibility original_claim_data)
   \<and> at_most 10 (assess_category_specific_factors category claim_text)
   \<and> at_most 30 (web_evidence_points evidence_sources)
   \<and> at_most 20 (table_get verdict_scores verdict 10)
   \<and> at_most 15 (table_get confidence_scores confidence 10)
   \<and> at_most 10 (content_quality claim claim_text)"
  using sophisticated_range [of claim original_claim_data]
    pattern_based_range [of claim evidence_sources]
    evidence_quality_cap claim_specificity_cap verdict_confidence_cap
    source_credibility_cap category_bonus_cap
    web_evidence_cap verdict_points_cap confidence_points_cap content_quality_cap
  by blast

lemma demo_sub_scores:
  "assess_evidence_quality demo_original = Inr 11"
  "assess_claim_specificity (PStr ''Revenue increased by 75% to $12 million in 2023'') = Inr 20"
  "assess_verdict_confidence (PStr ''Supported'') demo_original = Inr 16"
  "assess_source_credibility demo_original = Inr 7"
  "assess_category_specific_factors (PStr ''Financial'')
     (PStr ''Revenue increased by 75% to $12 million in 2023'') = Inr 5"
  by code_simp+

lemma demo_scores:
  "calculate_sophisticated_trust_score demo_scored_claim demo_original = 59"
  "calculate_pattern_based_trust_score demo_scored_claim demo_sources = 60"
  "calculate_pattern_based_trust_score demo_scored_claim (PInt 3) = 50"
  by code_simp+

theorem trust_score_bounds_witness:
  "calculate_sophisticated_trust_score demo_scored_claim demo_original = 59
   \<and> calculate_pattern_based_trust_score demo_scored_claim demo_sources = 60
   \<and> calculate_pattern_based_trust_score demo_scored_claim (PInt 3) = 50
   \<and> assess_evidence_quality demo_original = Inr 11
   \<and> assess_claim_specificity (PStr ''Revenue increased by 75% to $12 million in 2023'') = Inr 20
   \<and> assess_verdict_confidence (PStr ''Supported'') demo_original = Inr 16
   \<and> assess_source_credibility demo_original = Inr 7
   \<and> assess_category_specific_factors (PStr ''Financial'')
         (PStr ''Revenue increased by 75% to $12 million in 2023'') = Inr 5"
  using trust_score_bounds [of demo_scored_claim demo_original demo_sources
          "PStr ''Revenue increased by 75% to $12 million in 2023''" "PStr ''Supported''"
          "PStr ''Financial''" "PStr ''high''"]
  by (simp del: assess_claim_specificity.simps add: demo_sub_scores demo_scores)

subsection \<open>Pattern-based detector\<close>










lemma revenue_sentences: "sentences_of ''Revenue increased by 75% this quarter.'' = [''Revenue increased by 75% this quarter'']"
  by code_simp

lemma revenue_strip: "py_strip ''Revenue increased by 75% this quarter'' = ''Revenue increased by 75% this quarter''"
  by code_simp

lemma revenue_length: "length ''Revenue increased by 75% this quarter'' = 37"
  by code_simp

lemma revenue_lower: "py_lower ''Revenue increased by 75% this quarter'' = ''revenue increased by 75% this quarter''"
  by code_simp

lemma revenue_match:
  "first_match claim_patterns ''revenue increased by 75% this quarter''
     = Some (''Financial'', ''revenue_growth'', ''high'', Some ''75%'')"
  by code_simp

lemma revenue_verdict:
  "analyze_enhanced_verdict ''revenue increased by 75% this quarter''
     ''Financial'' ''revenue_growth'' (Some ''75%'') ''high'' = ''Contradicted''"
  by code_simp

lemma revenue_value: "float_of_value ''75%'' = Some (75, 0)"
  by code_simp

lemma revenue_above: "float_gt (75, 0) 60"
  by code_simp

lemma revenue_document:
  "use_enhanced_pattern_analysis ''Revenue increased by 75% this quarter.'' filename = []"
  by (simp add: use_enhanced_pattern_analysis_def revenue_sentences revenue_strip)

lemma long_sentences: "sentences_of ''Revenue increased by 75% this quarter across all regions.'' = [''Revenue increased by 75% this quarter across all regions'']"
  by code_simp

lemma long_strip: "py_strip ''Revenue increased by 75% this quarter across all regions'' = ''Revenue increased by 75% this quarter across all regions''"
  by code_simp

lemma long_length: "length ''Revenue increased by 75% this quarter across all regions'' = 56"
  by code_simp

lemma long_lower: "py_lower ''Revenue increased by 75% this quarter across all regions'' = ''revenue increased by 75% this quarter across all regions''"
  by code_simp

lemma long_match:
  "first_match claim_patterns ''revenue increased by 75% this quarter across all regions''
     = Some (''Financial'', ''revenue_growth'', ''high'', Some ''75%'')"
  by code_simp

lemma long_verdict:
  "analyze_enhanced_verdict ''revenue increased by 75% this quarter across all regions''
     ''Financial'' ''revenue_growth'' (Some ''75%'') ''high'' = ''Contradicted''"
  by code_simp

text \<open>
  C4, as stated, does not hold: on the document "Revenue increased by 75% this quarter."
  the detector returns no claim at all. The sentence has 37 characters, and the detector
  skips every sentence shorter than 40.
\<close>

theorem revenue_scenario_counterexample:
  "use_enhanced_pattern_analysis ''Revenue increased by 75% this quarter.'' ''report.txt'' = []"
  by (rule revenue_document)

text \<open>
  C4, amended: the sentence "Revenue increased by 75% this quarter" matches the
  revenue_growth rule first, with captured value "75%", read as the number 75, and since
  75 exceeds 60 the verdict analysis gives "Contradicted" for it; but the detector, run
  on the document made of this sentence under any file name, returns no claim, because
  the sentence has 37 characters and the detector requires 40. When the sentence is long
  enough ("Revenue increased by 75% this quarter across all regions."), the detector
  returns exactly one claim, with rule revenue_growth, value "75%" and verdict
  "Contradicted".
\<close>

theorem revenue_scenario_amended:
  "use_enhanced_pattern_analysis ''Revenue increased by 75% this quarter.'' filename = []
   \<and> length (py_strip ''Revenue increased by 75% this quarter'') = 37
   \<and> first_match claim_patterns (py_lower ''Revenue increased by 75% this quarter'')
       = Some (''Financial'', ''revenue_growth'', ''high'', Some ''75%'')
   \<and> float_of_value ''75%'' = Some (75, 0) \<and> float_gt (75, 0) 60
   \<and> analyze_enhanced_verdict (py_lower ''Revenue increased by 75% this quarter'')
         ''Financial'' ''revenue_growth'' (Some ''75%'') ''high'' = ''Contradicted''
   \<and> use_enhanced_pattern_analysis
         ''Revenue increased by 75% this quarter across all regions.'' filename =
     [PDict (mk_dict
        [(''claim_text'', PStr ''Revenue increased by 75% this quarter across all regions''),
         (''category'', PStr ''Financial''),
         (''verdict'', PStr ''Contradicted''),
         (''evidence_summary'', PStr (generate_enhanced_evidence_summary
              ''Revenue increased by 75% this quarter across all regions''
              ''Financial'' ''revenue_growth'' ''Contradicted'' ''high'')),
         (''verdict_reasoning'', PStr (generate_enhanced_reasoning
              ''Revenue increased by 75% this quarter across all regions''
              ''Financial'' ''revenue_growth'' ''Contradicted'' (Some ''75%'') ''high'')),
         (''source_context'', PStr ''Revenue increased by 75% this quarter across all regions''),
         (''metadata'', PDict (mk_dict
            [(''source'', PStr filename),
             (''source_chunk_id'', PInt 0),
             (''claim_type'', PStr ''revenue_growth''),
             (''extracted_value'', PStr ''75%''),
             (''confidence'', PStr ''high''),
             (''analysis_method'', PStr ''enhanced_pattern_matching'')]))])]"
  by (simp add: revenue_sentences revenue_strip revenue_lower revenue_match revenue_value
        revenue_above revenue_verdict use_enhanced_pattern_analysis_def long_sentences
        long_strip long_lower long_match long_verdict pattern_claim_def Let_def)



end
